theory Spec2Isabelle
  imports Complex_Main
begin

section \<open>Numbers and buffers\<close>

text \<open>
  The program is TypeScript. A JavaScript \<^verbatim>\<open>number\<close> is modelled as a \<^typ>\<open>real\<close>:
  \<^verbatim>\<open>Math.sin\<close>, \<^verbatim>\<open>Math.cos\<close>, \<^verbatim>\<open>Math.exp\<close>, \<^verbatim>\<open>Math.sqrt\<close>, \<^verbatim>\<open>Math.abs\<close>,
  \<^verbatim>\<open>Math.min\<close>, \<^verbatim>\<open>Math.max\<close> and \<^verbatim>\<open>Math.floor\<close> are the functions of analysis,
  and the rounding of IEEE doubles (and of the \<^verbatim>\<open>Float32Array\<close> stores) is not part of
  the model. The one exception is \<^verbatim>\<open>seededRandom\<close>: what is said of it is whether its
  value stays below 1, which the rounding of the last subtraction decides, so that
  function is modelled in doubles (section NoiseField). A division is the division of \<^typ>\<open>real\<close>; where the source would divide
  by zero (and produce an infinity or a NaN) the theorems below carry the hypothesis
  that the divisor is not zero whenever their conclusion depends on the quotient.

  A \<^verbatim>\<open>Float32Array\<close> attribute buffer is a \<^typ>\<open>real list\<close> holding three numbers for
  each vertex, exactly as the flat array of the source; the loops walk it with the
  source's stride of three. A store outside the array is ignored by a typed array, which
  is what \<^term>\<open>xs[i := v]\<close> does. A read outside the array gives \<^verbatim>\<open>undefined\<close> in the
  source; the loops read a vertex only at indices below the length when the length is a
  multiple of three, and the theorems below assume so wherever they speak of a vertex.
\<close>

type_synonym buffer = "real list"

section \<open>Configuration (\<^verbatim>\<open>src/config/waveConfig.ts\<close>)\<close>

datatype theme = dark | light

record WaveConfig =
  waveHeight :: real
  wavePeriod :: real
  waveDirection :: real
  waveLength :: real
  waveSpeed :: real
  secondaryWaveHeight :: real
  secondaryWavePeriod :: real
  secondaryWaveDirection :: real
  windSpeed :: real
  windDirection :: real
  windChopIntensity :: real
  canyonAmplification :: real
  canyonFocusWidth :: real
  canyonDepthEffect :: real
  foamThreshold :: real
  foamIntensity :: real
  waterClarity :: real
  wireframe :: bool
  animateWaves :: bool
  waveColor :: string
  theme :: theme
  timeScale :: real

text \<open>
  \<^verbatim>\<open>defaultWaveConfig\<close>. The copy of \<^verbatim>\<open>waveConfig.ts\<close> among the sources predates the
  fields \<^verbatim>\<open>waveColor\<close> and \<^verbatim>\<open>theme\<close> that the components read; their default values
  are therefore parameters here.
\<close>

definition defaultWaveConfig :: "string \<Rightarrow> theme \<Rightarrow> WaveConfig" where
  "defaultWaveConfig colour th =
     \<lparr> waveHeight = 8, wavePeriod = 14, waveDirection = 0, waveLength = 200,
       waveSpeed = 1.0,
       secondaryWaveHeight = 2, secondaryWavePeriod = 8, secondaryWaveDirection = 30,
       windSpeed = 15, windDirection = 45, windChopIntensity = 0.3,
       canyonAmplification = 2.0, canyonFocusWidth = 0.4, canyonDepthEffect = 0.7,
       foamThreshold = 0.6, foamIntensity = 0.5, waterClarity = 0.7,
       wireframe = True, animateWaves = True,
       waveColor = colour, theme = th,
       timeScale = 1.0 \<rparr>"

section \<open>The component \<^verbatim>\<open>WaveMesh\<close>, with foam and vertex colours\<close>

text \<open>The channels of a \<^verbatim>\<open>THREE.Color\<close>, as \<^verbatim>\<open>baseColor\<close> holds them.\<close>

record Color =
  color_r :: real
  color_g :: real
  color_b :: real

subsection \<open>Values computed once per frame\<close>

definition gravity :: real where
  "gravity = 9.8"

definition primaryWaveSpeed :: "WaveConfig \<Rightarrow> real" where
  "primaryWaveSpeed config = (gravity * wavePeriod config) / (2 * pi) * waveSpeed config * 0.3"

definition secondaryWaveSpeed :: "WaveConfig \<Rightarrow> real" where
  "secondaryWaveSpeed config =
     (gravity * secondaryWavePeriod config) / (2 * pi) * waveSpeed config * 0.3"

definition windChopMultiplier :: "WaveConfig \<Rightarrow> real" where
  "windChopMultiplier config = windChopIntensity config * (1 + windSpeed config / 20)"

definition clarityFactor :: "WaveConfig \<Rightarrow> real" where
  "clarityFactor config = waterClarity config"

definition primaryDir :: "WaveConfig \<Rightarrow> real" where
  "primaryDir config = (waveDirection config * pi) / 180"

definition primaryK :: "WaveConfig \<Rightarrow> real" where
  "primaryK config = (2 * pi) / waveLength config"

definition primarySin :: "WaveConfig \<Rightarrow> real" where
  "primarySin config = sin (primaryDir config)"

definition primaryCos :: "WaveConfig \<Rightarrow> real" where
  "primaryCos config = cos (primaryDir config)"

definition secondaryDir :: "WaveConfig \<Rightarrow> real" where
  "secondaryDir config = (secondaryWaveDirection config * pi) / 180"

definition secondaryWaveLength :: "WaveConfig \<Rightarrow> real" where
  "secondaryWaveLength config = waveLength config * 0.6"

definition secondaryK :: "WaveConfig \<Rightarrow> real" where
  "secondaryK config = (2 * pi) / secondaryWaveLength config"

definition secondarySin :: "WaveConfig \<Rightarrow> real" where
  "secondarySin config = sin (secondaryDir config)"

definition secondaryCos :: "WaveConfig \<Rightarrow> real" where
  "secondaryCos config = cos (secondaryDir config)"

definition gridSpacing :: real where
  "gridSpacing = 300 / 200"

subsection \<open>The body of the vertex loop\<close>

definition distFromCenter :: "real \<Rightarrow> real" where
  "distFromCenter x = \<bar>x\<bar> / 150"

definition canyonFactor :: "WaveConfig \<Rightarrow> real \<Rightarrow> real" where
  "canyonFactor config x =
     1 + (canyonAmplification config - 1) *
       exp (((- distFromCenter x) * distFromCenter x) /
            (canyonFocusWidth config * canyonFocusWidth config))"

definition shoreDistance :: "real \<Rightarrow> real" where
  "shoreDistance z = (z + 150) / 300"

definition depthFactor :: "WaveConfig \<Rightarrow> real \<Rightarrow> real" where
  "depthFactor config z = 1 + canyonDepthEffect config * shoreDistance z"

definition primaryPhase :: "WaveConfig \<Rightarrow> real \<Rightarrow> real \<Rightarrow> real \<Rightarrow> real" where
  "primaryPhase config time x z =
     primaryK config *
       (primarySin config * x + primaryCos config * z - primaryWaveSpeed config * time)"

definition primaryAmplitude :: "WaveConfig \<Rightarrow> real \<Rightarrow> real \<Rightarrow> real" where
  "primaryAmplitude config x z = waveHeight config * canyonFactor config x * depthFactor config z"

definition primaryWave :: "WaveConfig \<Rightarrow> real \<Rightarrow> real \<Rightarrow> real \<Rightarrow> real" where
  "primaryWave config time x z = primaryAmplitude config x z * sin (primaryPhase config time x z)"

definition primarySlope :: "WaveConfig \<Rightarrow> real \<Rightarrow> real \<Rightarrow> real \<Rightarrow> real" where
  "primarySlope config time x z =
     primaryAmplitude config x z * primaryK config * cos (primaryPhase config time x z)"

definition secondaryPhase :: "WaveConfig \<Rightarrow> real \<Rightarrow> real \<Rightarrow> real \<Rightarrow> real" where
  "secondaryPhase config time x z =
     secondaryK config *
       (secondarySin config * x + secondaryCos config * z - secondaryWaveSpeed config * time)"

definition secondaryAmplitude :: "WaveConfig \<Rightarrow> real \<Rightarrow> real" where
  "secondaryAmplitude config x = secondaryWaveHeight config * canyonFactor config x * 0.7"

definition secondaryWave :: "WaveConfig \<Rightarrow> real \<Rightarrow> real \<Rightarrow> real \<Rightarrow> real" where
  "secondaryWave config time x z =
     secondaryAmplitude config x * sin (secondaryPhase config time x z)"

definition secondarySlope :: "WaveConfig \<Rightarrow> real \<Rightarrow> real \<Rightarrow> real \<Rightarrow> real" where
  "secondarySlope config time x z =
     secondaryAmplitude config x * secondaryK config * cos (secondaryPhase config time x z)"

definition chopTime :: "real \<Rightarrow> real" where
  "chopTime time = time * 2"

definition chop1 :: "real \<Rightarrow> real \<Rightarrow> real \<Rightarrow> real" where
  "chop1 time x z = sin (x * 0.08 + chopTime time * 1.1) * cos (z * 0.06 + chopTime time * 0.9)"

definition chop2 :: "real \<Rightarrow> real \<Rightarrow> real \<Rightarrow> real" where
  "chop2 time x z = sin (x * 0.15 - chopTime time * 0.7) * cos (z * 0.12 + chopTime time * 1.3)"

definition chop3 :: "real \<Rightarrow> real \<Rightarrow> real \<Rightarrow> real" where
  "chop3 time x z = sin ((x + z) * 0.1 + chopTime time * 0.8)"

definition chopDeriv1 :: "real \<Rightarrow> real \<Rightarrow> real \<Rightarrow> real" where
  "chopDeriv1 time x z =
     cos (x * 0.08 + chopTime time * 1.1) * 0.08 * cos (z * 0.06 + chopTime time * 0.9)"

definition chopDeriv2 :: "real \<Rightarrow> real \<Rightarrow> real \<Rightarrow> real" where
  "chopDeriv2 time x z =
     cos (x * 0.15 - chopTime time * 0.7) * 0.15 * cos (z * 0.12 + chopTime time * 1.3)"

text \<open>
  \<^verbatim>\<open>let windChop = 0; let chopSlope = 0; if (windChopMultiplier > 0) { ... }\<close>: both
  variables keep their initial 0 when the test fails.
\<close>

definition windChop :: "WaveConfig \<Rightarrow> real \<Rightarrow> real \<Rightarrow> real \<Rightarrow> real" where
  "windChop config time x z =
     (if windChopMultiplier config > 0
      then (chop1 time x z * 0.5 + chop2 time x z * 0.3 + chop3 time x z * 0.2) *
             windChopMultiplier config * 3
      else 0)"

definition chopSlope :: "WaveConfig \<Rightarrow> real \<Rightarrow> real \<Rightarrow> real \<Rightarrow> real" where
  "chopSlope config time x z =
     (if windChopMultiplier config > 0
      then (chopDeriv1 time x z * 0.5 + chopDeriv2 time x z * 0.3) *
             windChopMultiplier config * 3
      else 0)"

definition totalHeight :: "WaveConfig \<Rightarrow> real \<Rightarrow> real \<Rightarrow> real \<Rightarrow> real" where
  "totalHeight config time x z =
     primaryWave config time x z + secondaryWave config time x z + windChop config time x z"

definition totalSlope :: "WaveConfig \<Rightarrow> real \<Rightarrow> real \<Rightarrow> real \<Rightarrow> real" where
  "totalSlope config time x z =
     \<bar>primarySlope config time x z + secondarySlope config time x z + chopSlope config time x z\<bar>"

definition steepness :: "WaveConfig \<Rightarrow> real \<Rightarrow> real \<Rightarrow> real \<Rightarrow> real" where
  "steepness config time x z = totalSlope config time x z / gridSpacing"

text \<open>
  The foam step, as a function of the steepness and of the total height it is given.
  The local \<^verbatim>\<open>foamThreshold\<close> of the source (twice the configured one) is
  \<open>foamThreshold2\<close> here, the name of the field being taken.
\<close>

definition foamThreshold2 :: "WaveConfig \<Rightarrow> real" where
  "foamThreshold2 config = foamThreshold config * 2"

definition crestBonus :: "WaveConfig \<Rightarrow> real \<Rightarrow> real" where
  "crestBonus config height = max 0 (height / (waveHeight config * 2))"

definition foamStep :: "WaveConfig \<Rightarrow> real \<Rightarrow> real \<Rightarrow> real" where
  "foamStep config steep height =
     (if steep > foamThreshold2 config
      then min 1 (min 1 ((steep - foamThreshold2 config) * 2) * foamIntensity config +
                  crestBonus config height * foamIntensity config * 0.5)
      else 0)"

definition foamAmount :: "WaveConfig \<Rightarrow> real \<Rightarrow> real \<Rightarrow> real \<Rightarrow> real" where
  "foamAmount config time x z =
     foamStep config (steepness config time x z) (totalHeight config time x z)"

definition murkiness :: "WaveConfig \<Rightarrow> real" where
  "murkiness config = 1 - clarityFactor config"

definition turbidR :: "WaveConfig \<Rightarrow> Color \<Rightarrow> real" where
  "turbidR config baseColor = color_r baseColor * (1 - murkiness config * 0.3)"

definition turbidG :: "WaveConfig \<Rightarrow> Color \<Rightarrow> real" where
  "turbidG config baseColor = color_g baseColor * (1 + murkiness config * 0.1)"

definition turbidB :: "WaveConfig \<Rightarrow> Color \<Rightarrow> real" where
  "turbidB config baseColor = color_b baseColor * (1 - murkiness config * 0.2)"

text \<open>The three stores into \<^verbatim>\<open>colors\<close>: the blend of the tinted channel with white.\<close>

definition colorR :: "WaveConfig \<Rightarrow> Color \<Rightarrow> real \<Rightarrow> real" where
  "colorR config baseColor foam =
     turbidR config baseColor + (1 - turbidR config baseColor) * foam"

definition colorG :: "WaveConfig \<Rightarrow> Color \<Rightarrow> real \<Rightarrow> real" where
  "colorG config baseColor foam =
     turbidG config baseColor + (1 - turbidG config baseColor) * foam"

definition colorB :: "WaveConfig \<Rightarrow> Color \<Rightarrow> real \<Rightarrow> real" where
  "colorB config baseColor foam =
     turbidB config baseColor + (1 - turbidB config baseColor) * foam"

subsection \<open>The vertex loop and the frame callback\<close>

text \<open>
  \<^verbatim>\<open>for (let i = 0; i < positions.length; i += 3)\<close>, with the two buffers passed
  along and returned. \<^verbatim>\<open>vertexIndex = i / 3\<close> is exact, \<open>i\<close> being a multiple of 3.
\<close>

function wave_loop ::
  "WaveConfig \<Rightarrow> Color \<Rightarrow> real \<Rightarrow> buffer \<Rightarrow> nat \<Rightarrow> buffer \<Rightarrow> buffer \<Rightarrow> buffer \<times> buffer" where
  "wave_loop config baseColor time orig i positions colors =
     (if i < length positions then
        let x = orig ! i;
            z = orig ! (i + 2);
            vertexIndex = i div 3;
            height = totalHeight config time x z;
            foam = foamAmount config time x z
        in wave_loop config baseColor time orig (i + 3)
             (positions[i + 1 := height])
             (colors[vertexIndex * 3 := colorR config baseColor foam,
                     vertexIndex * 3 + 1 := colorG config baseColor foam,
                     vertexIndex * 3 + 2 := colorB config baseColor foam])
      else (positions, colors))"
  by pat_completeness auto
termination
  by (relation "measure (\<lambda>(config, baseColor, time, orig, i, positions, colors).
        length positions - i)") auto

declare wave_loop.simps [simp del]

text \<open>
  The surface evaluation of one frame: everything the callback does after it has fixed
  \<^verbatim>\<open>time\<close>.
\<close>

definition evaluate ::
  "WaveConfig \<Rightarrow> Color \<Rightarrow> real \<Rightarrow> buffer \<Rightarrow> buffer \<times> buffer \<Rightarrow> buffer \<times> buffer" where
  "evaluate config baseColor time orig bufs =
     wave_loop config baseColor time orig 0 (fst bufs) (snd bufs)"

text \<open>
  The state the callback works on: \<^verbatim>\<open>meshRef.current\<close> is \<^verbatim>\<open>null\<close> or the mesh, of
  which the callback touches the two attribute arrays of the geometry; \<^verbatim>\<open>timeRef\<close> is
  the accumulator; \<^verbatim>\<open>originalPositions\<close> is the copy of the grid taken when the geometry
  was made.
\<close>

record BufferGeometry =
  position_array :: buffer
  color_array :: buffer

record WaveMeshState =
  meshRef :: "BufferGeometry option"
  timeRef :: real
  originalPositions :: buffer

text \<open>
  \<^verbatim>\<open>useFrame((_, delta) => { ... })\<close>. \<^verbatim>\<open>baseColor\<close> holds the channels of
  \<^verbatim>\<open>new THREE.Color(config.waveColor)\<close>; the constructor belongs to the three.js
  library and is the parameter \<open>threeColor\<close>. The callback returns at once when
  \<^verbatim>\<open>meshRef.current\<close> is empty. Its last three statements (the two \<^verbatim>\<open>needsUpdate\<close>
  flags and \<^verbatim>\<open>computeVertexNormals\<close>) touch neither array nor the accumulator.
\<close>

definition advance :: "WaveConfig \<Rightarrow> real \<Rightarrow> real \<Rightarrow> real" where
  "advance config delta t = (if animateWaves config then t + delta * timeScale config else t)"

definition useFrame ::
  "(string \<Rightarrow> Color) \<Rightarrow> WaveConfig \<Rightarrow> real \<Rightarrow> WaveMeshState \<Rightarrow> WaveMeshState" where
  "useFrame threeColor config delta st =
     (case meshRef st of
        None \<Rightarrow> st
      | Some geo \<Rightarrow>
          let time = advance config delta (timeRef st);
              bufs = evaluate config (threeColor (waveColor config)) time (originalPositions st)
                       (position_array geo, color_array geo)
          in st\<lparr> timeRef := time,
                 meshRef := Some (geo\<lparr> position_array := fst bufs, color_array := snd bufs \<rparr>) \<rparr>)"

text \<open>A run of the render loop: one callback per frame, each with its configuration and delta.\<close>

fun run_frames ::
  "(string \<Rightarrow> Color) \<Rightarrow> (WaveConfig \<times> real) list \<Rightarrow> WaveMeshState \<Rightarrow> WaveMeshState" where
  "run_frames threeColor [] st = st"
| "run_frames threeColor ((config, delta) # frames) st =
     run_frames threeColor frames (useFrame threeColor config delta st)"

text \<open>
  The state when the component is mounted: the position array of the rotated plane (the
  parameter \<open>grid\<close>, three.js having built it), a colour array of
  \<^verbatim>\<open>position.count * 3\<close> zeros, \<^verbatim>\<open>originalPositions\<close> a copy of the position array,
  and \<^verbatim>\<open>useRef(0)\<close> for the time.
\<close>

definition mounted :: "buffer \<Rightarrow> WaveMeshState" where
  "mounted grid =
     \<lparr> meshRef = Some \<lparr> position_array = grid,
                          color_array = replicate (length grid div 3 * 3) 0 \<rparr>,
       timeRef = 0,
       originalPositions = grid \<rparr>"

text \<open>
  The buffers of a state are in step with the grid: both arrays are as long as
  \<^verbatim>\<open>originalPositions\<close>, and the position array holds the \<open>x\<close> and the \<open>z\<close> of the
  grid (every index but those of the heights, \<open>j mod 3 = 1\<close>).
\<close>

definition grid_kept :: "WaveMeshState \<Rightarrow> bool" where
  "grid_kept st =
     (case meshRef st of
        None \<Rightarrow> True
      | Some geo \<Rightarrow>
          length (position_array geo) = length (originalPositions st) \<and>
          length (color_array geo) = length (originalPositions st) \<and>
          list_all (\<lambda>j. j mod 3 = 1 \<or> position_array geo ! j = originalPositions st ! j)
            [0..<length (originalPositions st)])"

section \<open>The component \<^verbatim>\<open>WaveMesh\<close> without colours (the wireframe variant)\<close>

text \<open>
  This copy of the component computes the direction, the wavenumber, the canyon and the
  depth factor by the same expressions as the one above (inside the loop instead of
  before it), so the definitions above are used for them. Its phase speeds, its wind
  chop and its loop are its own.
\<close>

definition primarySpeed :: "WaveConfig \<Rightarrow> real" where
  "primarySpeed config = sqrt (9.8 * waveLength config / (2 * pi)) * 0.5"

definition secondarySpeed :: "WaveConfig \<Rightarrow> real" where
  "secondarySpeed config = sqrt (9.8 * secondaryWaveLength config / (2 * pi)) * 0.5"

definition primaryPhase_wf :: "WaveConfig \<Rightarrow> real \<Rightarrow> real \<Rightarrow> real \<Rightarrow> real" where
  "primaryPhase_wf config time x z =
     primaryK config *
       (sin (primaryDir config) * x + cos (primaryDir config) * z - primarySpeed config * time)"

definition primaryWave_wf :: "WaveConfig \<Rightarrow> real \<Rightarrow> real \<Rightarrow> real \<Rightarrow> real" where
  "primaryWave_wf config time x z =
     waveHeight config * canyonFactor config x * depthFactor config z *
       sin (primaryPhase_wf config time x z)"

definition secondaryPhase_wf :: "WaveConfig \<Rightarrow> real \<Rightarrow> real \<Rightarrow> real \<Rightarrow> real" where
  "secondaryPhase_wf config time x z =
     secondaryK config *
       (sin (secondaryDir config) * x + cos (secondaryDir config) * z -
        secondarySpeed config * time)"

definition secondaryWave_wf :: "WaveConfig \<Rightarrow> real \<Rightarrow> real \<Rightarrow> real \<Rightarrow> real" where
  "secondaryWave_wf config time x z =
     secondaryWaveHeight config * canyonFactor config x * 0.7 *
       sin (secondaryPhase_wf config time x z)"

definition windChop_wf :: "WaveConfig \<Rightarrow> real \<Rightarrow> real \<Rightarrow> real \<Rightarrow> real" where
  "windChop_wf config time x z =
     (if windChopIntensity config > 0
      then (chop1 time x z * 0.5 + chop2 time x z * 0.3 + chop3 time x z * 0.2) *
             windChopIntensity config * 3
      else 0)"

definition height_wf :: "WaveConfig \<Rightarrow> real \<Rightarrow> real \<Rightarrow> real \<Rightarrow> real" where
  "height_wf config time x z =
     primaryWave_wf config time x z + secondaryWave_wf config time x z +
     windChop_wf config time x z"

function wave_loop_wf :: "WaveConfig \<Rightarrow> real \<Rightarrow> buffer \<Rightarrow> nat \<Rightarrow> buffer \<Rightarrow> buffer" where
  "wave_loop_wf config time orig i positions =
     (if i < length positions then
        let x = orig ! i;
            z = orig ! (i + 2)
        in wave_loop_wf config time orig (i + 3)
             (positions[i + 1 := height_wf config time x z])
      else positions)"
  by pat_completeness auto
termination
  by (relation "measure (\<lambda>(config, time, orig, i, positions).
        length positions - i)") auto

declare wave_loop_wf.simps [simp del]

definition useFrame_wf :: "WaveConfig \<Rightarrow> real \<Rightarrow> WaveMeshState \<Rightarrow> WaveMeshState" where
  "useFrame_wf config delta st =
     (case meshRef st of
        None \<Rightarrow> st
      | Some geo \<Rightarrow>
          let time = advance config delta (timeRef st)
          in st\<lparr> timeRef := time,
                 meshRef := Some (geo\<lparr> position_array :=
                   wave_loop_wf config time (originalPositions st) 0 (position_array geo) \<rparr>) \<rparr>)"

fun run_frames_wf :: "(WaveConfig \<times> real) list \<Rightarrow> WaveMeshState \<Rightarrow> WaveMeshState" where
  "run_frames_wf [] st = st"
| "run_frames_wf ((config, delta) # frames) st = run_frames_wf frames (useFrame_wf config delta st)"

section \<open>NoiseField: the noise functions of the component \<^verbatim>\<open>Shore\<close>\<close>

text \<open>
  \<^verbatim>\<open>seededRandom\<close> is modelled in IEEE-754 binary64 with rounding to nearest, ties to
  even. A double is the real number it denotes. \<open>rne t\<close> is the integer nearest to \<open>t\<close>,
  the even one at a tie. \<open>ulp y\<close> is the spacing of the doubles around \<open>y\<close>:
  \<open>2\<^sup>e\<^sup>-\<^sup>5\<^sup>2\<close> for \<open>2\<^sup>e \<le> \<bar>y\<bar> < 2\<^sup>e\<^sup>+\<^sup>1\<close>, and \<open>2\<^sup>-\<^sup>1\<^sup>0\<^sup>7\<^sup>4\<close> in the subnormal range
  below \<open>2\<^sup>-\<^sup>1\<^sup>0\<^sup>2\<^sup>2\<close>. \<open>fl y\<close> is the double nearest to \<open>y\<close>, the result of an
  arithmetic operation whose exact result is \<open>y\<close>. Overflow is left out: no number in
  \<^verbatim>\<open>seededRandom\<close> exceeds 10001 in absolute value. \<^verbatim>\<open>Math.sin\<close> is taken to return
  the double nearest to the sine; the theorems on \<^verbatim>\<open>seededRandom\<close> below use of it only
  that its value at \<open>-2\<^sup>-\<^sup>7\<^sup>0\<close> lies between \<open>-2\<^sup>-\<^sup>6\<^sup>9\<close> and \<open>-2\<^sup>-\<^sup>7\<^sup>2\<close>, and that its value
  at 0 is 0. \<^verbatim>\<open>Math.floor\<close> of a double is exact.
\<close>

definition rne :: "real \<Rightarrow> int" where
  "rne t =
     (let f = \<lfloor>t\<rfloor>; r = t - of_int f
      in if r < 1 / 2 then f else if 1 / 2 < r then f + 1 else if even f then f else f + 1)"

definition ulp_exponent :: "real \<Rightarrow> int" where
  "ulp_exponent y = max \<lfloor>log 2 \<bar>y\<bar>\<rfloor> (- 1022) - 52"

definition ulp :: "real \<Rightarrow> real" where
  "ulp y = 2 powr of_int (ulp_exponent y)"

definition fl :: "real \<Rightarrow> real" where
  "fl y = (if y = 0 then 0 else of_int (rne (y / ulp y)) * ulp y)"

definition Math_sin :: "real \<Rightarrow> real" where
  "Math_sin x = fl (sin x)"

text \<open>
  \<^verbatim>\<open>const x = Math.sin(seed) * 10000; return x - Math.floor(x);\<close>
\<close>

definition seededRandom :: "real \<Rightarrow> real" where
  "seededRandom seed = (let x = fl (Math_sin seed * 10000) in fl (x - of_int \<lfloor>x\<rfloor>))"

definition noise3D :: "real \<Rightarrow> real \<Rightarrow> real \<Rightarrow> real" where
  "noise3D x y z =
     sin (x * 0.5 + y * 0.3) * cos (z * 0.4 + x * 0.2) +
     sin (y * 0.7 - z * 0.5) * cos (x * 0.6) * 0.5 +
     sin (x * 1.3 + z * 1.1) * cos (y * 0.9) * 0.25"

text \<open>
  The loop of \<^verbatim>\<open>fbm\<close>, \<^verbatim>\<open>for (let i = 0; i < octaves; i++)\<close>, over its four
  variables; it returns \<^verbatim>\<open>value\<close> and \<^verbatim>\<open>maxValue\<close>.
\<close>

function fbm_loop ::
  "real \<Rightarrow> real \<Rightarrow> nat \<Rightarrow> nat \<Rightarrow> real \<Rightarrow> real \<Rightarrow> real \<Rightarrow> real \<Rightarrow> real \<times> real" where
  "fbm_loop x y octaves i val amplitude frequency maxValue =
     (if i < octaves then
        fbm_loop x y octaves (i + 1)
          (val + amplitude * noise3D (x * frequency) (y * frequency) (real i * 100))
          (amplitude * 0.5)
          (frequency * 2.1)
          (maxValue + amplitude)
      else (val, maxValue))"
  by pat_completeness auto
termination
  by (relation "measure (\<lambda>(x, y, octaves, i, val, amplitude, frequency, maxValue).
        octaves - i)") auto

declare fbm_loop.simps [simp del]

definition fbm :: "real \<Rightarrow> real \<Rightarrow> nat \<Rightarrow> real" where
  "fbm x y octaves = (case fbm_loop x y octaves 0 0 1 1 0 of (val, maxValue) \<Rightarrow> val / maxValue)"

section \<open>TerrainField: the geometry functions of the component \<^verbatim>\<open>Shore\<close>\<close>

subsection \<open>Cliffs\<close>

definition large :: "real \<Rightarrow> real \<Rightarrow> real \<Rightarrow> real \<Rightarrow> real" where
  "large seed displaceAmount x y = fbm (x * 0.03 + seed) (y * 0.04) 3 * displaceAmount"

definition medium :: "real \<Rightarrow> real \<Rightarrow> real \<Rightarrow> real \<Rightarrow> real" where
  "medium seed displaceAmount x y = fbm (x * 0.1 + seed) (y * 0.12) 2 * (displaceAmount * 0.4)"

definition small :: "real \<Rightarrow> real \<Rightarrow> real \<Rightarrow> real \<Rightarrow> real" where
  "small seed displaceAmount x y = fbm (x * 0.3 + seed) (y * 0.35) 2 * (displaceAmount * 0.15)"

definition erosion :: "real \<Rightarrow> real \<Rightarrow> real \<Rightarrow> real \<Rightarrow> real \<Rightarrow> real" where
  "erosion height seed displaceAmount x y =
     max 0 (1 - (y + height / 2) / (height * 0.4)) *
       fbm (x * 0.15 + seed) (y * 0.1) 2 * (displaceAmount * 0.5)"

definition overhang :: "real \<Rightarrow> real \<Rightarrow> real \<Rightarrow> real \<Rightarrow> real \<Rightarrow> real" where
  "overhang height seed displaceAmount x y =
     max 0 ((y - height * 0.3) / (height * 0.2)) *
       fbm (x * 0.08 + seed) (y * 0.05) 2 * (displaceAmount * 0.3)"

definition cracks :: "real \<Rightarrow> real \<Rightarrow> real \<Rightarrow> real \<Rightarrow> real" where
  "cracks seed displaceAmount x y = sin (x * 0.4 + seed) * sin (y * 0.2) * (displaceAmount * 0.15)"

definition cliffZ :: "real \<Rightarrow> real \<Rightarrow> real \<Rightarrow> real \<Rightarrow> real \<Rightarrow> real" where
  "cliffZ height seed displaceAmount x y =
     large seed displaceAmount x y + medium seed displaceAmount x y +
     small seed displaceAmount x y + erosion height seed displaceAmount x y -
     overhang height seed displaceAmount x y + cracks seed displaceAmount x y"

function cliff_loop :: "real \<Rightarrow> real \<Rightarrow> real \<Rightarrow> nat \<Rightarrow> buffer \<Rightarrow> buffer" where
  "cliff_loop height seed displaceAmount i positions =
     (if i < length positions then
        let x = positions ! i;
            y = positions ! (i + 1)
        in cliff_loop height seed displaceAmount (i + 3)
             (positions[i + 2 := cliffZ height seed displaceAmount x y])
      else positions)"
  by pat_completeness auto
termination
  by (relation "measure (\<lambda>(height, seed, displaceAmount, i, positions).
        length positions - i)") auto

declare cliff_loop.simps [simp del]

text \<open>
  \<^verbatim>\<open>createCliffGeometry\<close> returns the geometry; what it computes is the position array.
  \<^verbatim>\<open>new THREE.PlaneGeometry(width, height, segX, segY)\<close> belongs to the three.js library:
  the position array of the plane it builds is the parameter \<open>planeGeometry\<close>. Every
  call of the source passes \<^verbatim>\<open>displaceAmount\<close>.
\<close>

definition createCliffGeometry ::
  "(real \<Rightarrow> real \<Rightarrow> nat \<Rightarrow> nat \<Rightarrow> buffer) \<Rightarrow> real \<Rightarrow> real \<Rightarrow> nat \<Rightarrow> nat \<Rightarrow> real \<Rightarrow> real \<Rightarrow> buffer" where
  "createCliffGeometry planeGeometry width height segX segY seed displaceAmount =
     cliff_loop height seed displaceAmount 0 (planeGeometry width height segX segY)"

subsection \<open>Rocks\<close>

definition yScale :: "real \<Rightarrow> real \<Rightarrow> real" where
  "yScale flattenBottom y = (if y < 0 then flattenBottom else 1.0)"

definition displacement :: "real \<Rightarrow> real \<Rightarrow> real \<Rightarrow> real \<Rightarrow> real" where
  "displacement seed x y z = 1 + fbm (x * 0.08 + seed) (y * 0.1 + z * 0.08 + seed) 3 * 0.3"

definition angular :: "real \<Rightarrow> real \<Rightarrow> real \<Rightarrow> real" where
  "angular seed x z = 1 + sin (x * 2 + seed) * cos (z * 2 + seed) * 0.1"

definition rockX :: "real \<Rightarrow> real \<Rightarrow> real \<Rightarrow> real \<Rightarrow> real \<Rightarrow> real" where
  "rockX seed stretchX x y z = x * displacement seed x y z * angular seed x z * stretchX"

definition rockY :: "real \<Rightarrow> real \<Rightarrow> real \<Rightarrow> real \<Rightarrow> real \<Rightarrow> real" where
  "rockY seed flattenBottom x y z = y * yScale flattenBottom y * displacement seed x y z * 0.85"

definition rockZ :: "real \<Rightarrow> real \<Rightarrow> real \<Rightarrow> real \<Rightarrow> real \<Rightarrow> real" where
  "rockZ seed stretchZ x y z = z * displacement seed x y z * angular seed x z * stretchZ"

function rock_loop :: "real \<Rightarrow> real \<Rightarrow> real \<Rightarrow> real \<Rightarrow> nat \<Rightarrow> buffer \<Rightarrow> buffer" where
  "rock_loop seed flattenBottom stretchX stretchZ i positions =
     (if i < length positions then
        let x = positions ! i;
            y = positions ! (i + 1);
            z = positions ! (i + 2)
        in rock_loop seed flattenBottom stretchX stretchZ (i + 3)
             (positions[i := rockX seed stretchX x y z,
                        i + 1 := rockY seed flattenBottom x y z,
                        i + 2 := rockZ seed stretchZ x y z])
      else positions)"
  by pat_completeness auto
termination
  by (relation "measure (\<lambda>(seed, flattenBottom, stretchX, stretchZ, i, positions).
        length positions - i)") auto

declare rock_loop.simps [simp del]

text \<open>
  \<^verbatim>\<open>new THREE.IcosahedronGeometry(baseSize, detail)\<close> is the parameter
  \<open>icosahedronGeometry\<close>, the position array of the subdivided icosahedron.
\<close>

definition createRockGeometry ::
  "(real \<Rightarrow> nat \<Rightarrow> buffer) \<Rightarrow> real \<Rightarrow> nat \<Rightarrow> real \<Rightarrow> real \<Rightarrow> real \<Rightarrow> real \<Rightarrow> buffer" where
  "createRockGeometry icosahedronGeometry baseSize detail seed flattenBottom stretchX stretchZ =
     rock_loop seed flattenBottom stretchX stretchZ 0 (icosahedronGeometry baseSize detail)"

text \<open>
  The calls of \<^verbatim>\<open>createRockGeometry\<close> in \<^verbatim>\<open>Shore\<close>: \<^verbatim>\<open>fortMainRock\<close>,
  \<^verbatim>\<open>fortUpperRock\<close> and one call for each entry of \<^verbatim>\<open>configs\<close>
  (\<^verbatim>\<open>size\<close>, \<^verbatim>\<open>seed\<close>, \<^verbatim>\<open>flatY\<close>, \<^verbatim>\<open>strX\<close>, \<^verbatim>\<open>strZ\<close>; always with detail 3).
  A call is the tuple of its six arguments. No call leaves an argument to its default.
\<close>

type_synonym rock_call = "real \<times> nat \<times> real \<times> real \<times> real \<times> real"

definition fortMainRock :: rock_call where
  "fortMainRock = (35, 4, 400, 0.3, 1.4, 1.2)"

definition fortUpperRock :: rock_call where
  "fortUpperRock = (25, 3, 410, 0.5, 1.5, 1.0)"

definition configs :: "(real \<times> real \<times> real \<times> real \<times> real) list" where
  "configs =
     [(22, 420, 0.35, 1.3, 1.4),
      (18, 425, 0.4, 1.2, 1.3),
      (20, 430, 0.35, 1.3, 1.2),
      (18, 435, 0.3, 1.4, 1.3),
      (16, 440, 0.35, 1.2, 1.4),
      (15, 445, 0.45, 1.1, 1.2),
      (17, 450, 0.4, 1.2, 1.1),
      (14, 455, 0.5, 1.0, 1.3),
      (16, 460, 0.45, 1.1, 1.2),
      (14, 465, 0.3, 1.5, 1.2),
      (15, 470, 0.3, 1.4, 1.3),
      (12, 475, 0.25, 1.6, 1.1)]"

definition rock_calls :: "rock_call list" where
  "rock_calls =
     fortMainRock # fortUpperRock #
     map (\<lambda>(size, seed, flatY, strX, strZ). (size, 3, seed, flatY, strX, strZ)) configs"

section \<open>The loops, vertex by vertex\<close>

text \<open>
  What each loop leaves in its buffers: the length is kept, the entries a pass does not
  store into are kept, and each stored entry is the value computed from the coordinates
  of its own vertex. Index \<open>i\<close> is the loop variable, a multiple of 3.
\<close>

lemma wave_loop_length:
  "length (fst (wave_loop config bc t orig i ps cs)) = length ps \<and>
   length (snd (wave_loop config bc t orig i ps cs)) = length cs"
proof (induction config bc t orig i ps cs rule: wave_loop.induct)
  case (1 config bc t orig i ps cs)
  show ?case
  proof (cases "i < length ps")
    case True
    with 1 show ?thesis
      by (subst (1 2) wave_loop.simps) (simp add: Let_def)
  next
    case False
    then show ?thesis by (simp add: wave_loop.simps)
  qed
qed

lemma wave_loop_positions_keep:
  "3 dvd i \<Longrightarrow> j < i \<or> j mod 3 \<noteq> 1 \<Longrightarrow>
   fst (wave_loop config bc t orig i ps cs) ! j = ps ! j"
proof (induction config bc t orig i ps cs rule: wave_loop.induct)
  case (1 config bc t orig i ps cs)
  show ?case
  proof (cases "i < length ps")
    case True
    have d: "3 dvd (i + 3)" using "1.prems"(1) by simp
    have k: "j < i + 3 \<or> j mod 3 \<noteq> 1" using "1.prems"(2) by auto
    have ne: "j \<noteq> i + 1" using "1.prems" by (auto simp: mod_Suc dvd_eq_mod_eq_0)
    show ?thesis
      using "1.IH"[OF True refl refl refl refl refl d k] True ne
      by (subst wave_loop.simps) (simp add: Let_def)
  next
    case False
    then show ?thesis by (simp add: wave_loop.simps)
  qed
qed

lemma wave_loop_positions_y:
  "3 dvd i \<Longrightarrow> i \<le> j \<Longrightarrow> j < length ps \<Longrightarrow> j mod 3 = 1 \<Longrightarrow>
   fst (wave_loop config bc t orig i ps cs) ! j =
     totalHeight config t (orig ! (j - 1)) (orig ! (j + 1))"
proof (induction config bc t orig i ps cs rule: wave_loop.induct)
  case (1 config bc t orig i ps cs)
  have lt: "i < length ps" using "1.prems" by simp
  have d: "3 dvd (i + 3)" using "1.prems"(1) by simp
  have ij: "i \<noteq> j" using "1.prems"(1,4) by (auto simp: dvd_eq_mod_eq_0)
  show ?case
  proof (cases "j = i + 1")
    case True
    have "fst (wave_loop config bc t orig (i + 3)
             (ps[i + 1 := totalHeight config t (orig ! i) (orig ! (i + 2))])
             (cs[i div 3 * 3 := colorR config bc (foamAmount config t (orig ! i) (orig ! (i + 2))),
                 i div 3 * 3 + 1 := colorG config bc (foamAmount config t (orig ! i) (orig ! (i + 2))),
                 i div 3 * 3 + 2 := colorB config bc (foamAmount config t (orig ! i) (orig ! (i + 2)))])) ! j
          = (ps[i + 1 := totalHeight config t (orig ! i) (orig ! (i + 2))]) ! j"
      using d True by (intro wave_loop_positions_keep) auto
    then show ?thesis using lt True "1.prems"(3)
      by (subst wave_loop.simps) (simp add: Let_def)
  next
    case False
    have "j \<noteq> i + 2" using "1.prems"(1,4) by (auto simp: dvd_eq_mod_eq_0 mod_Suc)
    then have le: "i + 3 \<le> j" using False ij "1.prems"(2) by simp
    have len: "j < length (ps[i + 1 := totalHeight config t (orig ! i) (orig ! (i + 2))])"
      using "1.prems"(3) by simp
    show ?thesis
      using "1.IH"[OF lt refl refl refl refl refl d le len "1.prems"(4)] lt
      by (subst wave_loop.simps) (simp add: Let_def)
  qed
qed

lemma wave_loop_colors_keep:
  "3 dvd i \<Longrightarrow> j < i \<Longrightarrow> snd (wave_loop config bc t orig i ps cs) ! j = cs ! j"
proof (induction config bc t orig i ps cs rule: wave_loop.induct)
  case (1 config bc t orig i ps cs)
  show ?case
  proof (cases "i < length ps")
    case True
    have d: "3 dvd (i + 3)" using "1.prems"(1) by simp
    have k: "j < i + 3" using "1.prems"(2) by simp
    have i3: "i div 3 * 3 = i" using "1.prems"(1) by simp
    show ?thesis
      using "1.IH"[OF True refl refl refl refl refl d k] True "1.prems"(2) i3
      by (subst wave_loop.simps) (simp add: Let_def)
  next
    case False
    then show ?thesis by (simp add: wave_loop.simps)
  qed
qed

lemma wave_loop_colors:
  "3 dvd i \<Longrightarrow> 3 dvd b \<Longrightarrow> i \<le> b \<Longrightarrow> b < length ps \<Longrightarrow> b + 2 < length cs \<Longrightarrow>
   snd (wave_loop config bc t orig i ps cs) ! b =
     colorR config bc (foamAmount config t (orig ! b) (orig ! (b + 2))) \<and>
   snd (wave_loop config bc t orig i ps cs) ! (b + 1) =
     colorG config bc (foamAmount config t (orig ! b) (orig ! (b + 2))) \<and>
   snd (wave_loop config bc t orig i ps cs) ! (b + 2) =
     colorB config bc (foamAmount config t (orig ! b) (orig ! (b + 2)))"
proof (induction config bc t orig i ps cs rule: wave_loop.induct)
  case (1 config bc t orig i ps cs)
  have lt: "i < length ps" using "1.prems" by simp
  have d: "3 dvd (i + 3)" using "1.prems"(1) by simp
  have i3: "i div 3 * 3 = i" using "1.prems"(1) by simp
  let ?f = "foamAmount config t (orig ! i) (orig ! (i + 2))"
  let ?ps = "ps[i + 1 := totalHeight config t (orig ! i) (orig ! (i + 2))]"
  let ?cs = "cs[i := colorR config bc ?f, i + 1 := colorG config bc ?f,
                i + 2 := colorB config bc ?f]"
  have unf: "wave_loop config bc t orig i ps cs = wave_loop config bc t orig (i + 3) ?ps ?cs"
    using lt i3 by (subst wave_loop.simps) (simp add: Let_def)
  show ?case
  proof (cases "b = i")
    case True
    have "snd (wave_loop config bc t orig (i + 3) ?ps ?cs) ! i = ?cs ! i"
      by (rule wave_loop_colors_keep[OF d]) simp
    moreover have "snd (wave_loop config bc t orig (i + 3) ?ps ?cs) ! (i + 1) = ?cs ! (i + 1)"
      by (rule wave_loop_colors_keep[OF d]) simp
    moreover have "snd (wave_loop config bc t orig (i + 3) ?ps ?cs) ! (i + 2) = ?cs ! (i + 2)"
      by (rule wave_loop_colors_keep[OF d]) simp
    ultimately show ?thesis using True "1.prems"(5) unfolding unf by simp
  next
    case False
    obtain m n where mn: "i = 3 * m" "b = 3 * n" using "1.prems"(1,2) by (auto simp: dvd_def)
    have le: "i + 3 \<le> b" using False "1.prems"(3) mn by auto
    have lp: "b < length ?ps" using "1.prems"(4) by simp
    have lc: "b + 2 < length ?cs" using "1.prems"(5) by simp
    have "i div 3 * 3 = i" by (rule i3)
    from "1.IH"[OF lt refl refl refl refl refl d "1.prems"(2) le lp] lc i3
    show ?thesis unfolding unf by simp
  qed
qed

lemma evaluate_length:
  "length (fst (evaluate config bc time orig (ps, cs))) = length ps \<and>
   length (snd (evaluate config bc time orig (ps, cs))) = length cs"
  by (simp add: evaluate_def wave_loop_length)

text \<open>The loop leaves the \<open>x\<close> and \<open>z\<close> of every vertex in the position buffer as they were.\<close>

lemma evaluate_keeps_grid:
  "j mod 3 \<noteq> 1 \<Longrightarrow> fst (evaluate config bc time orig (ps, cs)) ! j = ps ! j"
  by (simp add: evaluate_def wave_loop_positions_keep)

lemma vertex_index:
  fixes n j :: nat
  assumes "3 dvd n" "j < n"
  shows "3 dvd (3 * (j div 3))" "3 * (j div 3) + 2 < n"
    "j = 3 * (j div 3) \<or> j = 3 * (j div 3) + 1 \<or> j = 3 * (j div 3) + 2"
  using assms by presburger+

lemma wave_loop_wf_length:
  "length (wave_loop_wf config t orig i ps) = length ps"
proof (induction config t orig i ps rule: wave_loop_wf.induct)
  case (1 config t orig i ps)
  show ?case
  proof (cases "i < length ps")
    case True
    with 1 show ?thesis
      by (subst wave_loop_wf.simps) (simp add: Let_def)
  next
    case False
    then show ?thesis by (simp add: wave_loop_wf.simps)
  qed
qed

lemma wave_loop_wf_keep:
  "3 dvd i \<Longrightarrow> j < i \<or> j mod 3 \<noteq> 1 \<Longrightarrow> wave_loop_wf config t orig i ps ! j = ps ! j"
proof (induction config t orig i ps rule: wave_loop_wf.induct)
  case (1 config t orig i ps)
  show ?case
  proof (cases "i < length ps")
    case True
    have d: "3 dvd (i + 3)" using "1.prems"(1) by simp
    have k: "j < i + 3 \<or> j mod 3 \<noteq> 1" using "1.prems"(2) by auto
    have ne: "j \<noteq> i + 1" using "1.prems" by (auto simp: mod_Suc dvd_eq_mod_eq_0)
    show ?thesis
      using "1.IH"[OF True refl refl d k] True ne
      by (subst wave_loop_wf.simps) (simp add: Let_def)
  next
    case False
    then show ?thesis by (simp add: wave_loop_wf.simps)
  qed
qed

lemma wave_loop_wf_y:
  "3 dvd i \<Longrightarrow> i \<le> j \<Longrightarrow> j < length ps \<Longrightarrow> j mod 3 = 1 \<Longrightarrow>
   wave_loop_wf config t orig i ps ! j = height_wf config t (orig ! (j - 1)) (orig ! (j + 1))"
proof (induction config t orig i ps rule: wave_loop_wf.induct)
  case (1 config t orig i ps)
  have lt: "i < length ps" using "1.prems" by simp
  have d: "3 dvd (i + 3)" using "1.prems"(1) by simp
  have ij: "i \<noteq> j" using "1.prems"(1,4) by (auto simp: dvd_eq_mod_eq_0)
  let ?ps = "ps[i + 1 := height_wf config t (orig ! i) (orig ! (i + 2))]"
  have unf: "wave_loop_wf config t orig i ps = wave_loop_wf config t orig (i + 3) ?ps"
    using lt by (subst wave_loop_wf.simps) (simp add: Let_def)
  show ?case
  proof (cases "j = i + 1")
    case True
    have "wave_loop_wf config t orig (i + 3) ?ps ! j = ?ps ! j"
      using d True by (intro wave_loop_wf_keep) auto
    then show ?thesis using True "1.prems"(3) unfolding unf by simp
  next
    case False
    have "j \<noteq> i + 2" using "1.prems"(1,4) by (auto simp: dvd_eq_mod_eq_0 mod_Suc)
    then have le: "i + 3 \<le> j" using False ij "1.prems"(2) by simp
    have len: "j < length ?ps" using "1.prems"(3) by simp
    show ?thesis
      using "1.IH"[OF lt refl refl d le len "1.prems"(4)] unfolding unf by simp
  qed
qed

lemma cliff_loop_length: "length (cliff_loop h s d i ps) = length ps"
proof (induction h s d i ps rule: cliff_loop.induct)
  case (1 h s d i ps)
  show ?case
  proof (cases "i < length ps")
    case True
    with 1 show ?thesis by (subst cliff_loop.simps) (simp add: Let_def)
  next
    case False
    then show ?thesis by (simp add: cliff_loop.simps)
  qed
qed

lemma cliff_loop_keep:
  "3 dvd i \<Longrightarrow> j < i \<or> j mod 3 \<noteq> 2 \<Longrightarrow> cliff_loop h s d i ps ! j = ps ! j"
proof (induction h s d i ps rule: cliff_loop.induct)
  case (1 h s d i ps)
  show ?case
  proof (cases "i < length ps")
    case True
    have d3: "3 dvd (i + 3)" using "1.prems"(1) by simp
    have k: "j < i + 3 \<or> j mod 3 \<noteq> 2" using "1.prems"(2) by auto
    have ne: "j \<noteq> i + 2" using "1.prems" by (auto simp: mod_Suc dvd_eq_mod_eq_0)
    show ?thesis
      using "1.IH"[OF True refl refl d3 k] True ne
      by (subst cliff_loop.simps) (simp add: Let_def)
  next
    case False
    then show ?thesis by (simp add: cliff_loop.simps)
  qed
qed

lemma cliff_loop_z:
  "3 dvd i \<Longrightarrow> i \<le> j \<Longrightarrow> j < length ps \<Longrightarrow> j mod 3 = 2 \<Longrightarrow>
   cliff_loop h s d i ps ! j = cliffZ h s d (ps ! (j - 2)) (ps ! (j - 1))"
proof (induction h s d i ps rule: cliff_loop.induct)
  case (1 h s d i ps)
  have lt: "i < length ps" using "1.prems" by simp
  have d3: "3 dvd (i + 3)" using "1.prems"(1) by simp
  obtain m where m: "i = 3 * m" using "1.prems"(1) by (auto simp: dvd_def)
  let ?ps = "ps[i + 2 := cliffZ h s d (ps ! i) (ps ! (i + 1))]"
  have unf: "cliff_loop h s d i ps = cliff_loop h s d (i + 3) ?ps"
    using lt by (subst cliff_loop.simps) (simp add: Let_def)
  show ?case
  proof (cases "j = i + 2")
    case True
    have "cliff_loop h s d (i + 3) ?ps ! j = ?ps ! j"
      using d3 True by (intro cliff_loop_keep) auto
    then show ?thesis using True "1.prems"(3) unfolding unf by simp
  next
    case False
    have "j \<noteq> i" "j \<noteq> i + 1" using "1.prems"(4) m by (auto simp: mod_Suc)
    then have le: "i + 3 \<le> j" using False "1.prems"(2) by simp
    have "j \<noteq> i + 3" "j \<noteq> i + 4" using "1.prems"(4) m by (auto simp: mod_Suc)
    then have le5: "i + 5 \<le> j" using le by simp
    have len: "j < length ?ps" using "1.prems"(3) by simp
    have "?ps ! (j - 2) = ps ! (j - 2)" "?ps ! (j - 1) = ps ! (j - 1)" using le5 by auto
    then show ?thesis
      using "1.IH"[OF lt refl refl d3 le len "1.prems"(4)] unfolding unf by simp
  qed
qed

lemma createCliffGeometry_nth:
  assumes "j < length (planeGeometry width height segX segY)"
  shows "createCliffGeometry planeGeometry width height segX segY seed displaceAmount ! j =
    (if j mod 3 = 2
     then cliffZ height seed displaceAmount
            (planeGeometry width height segX segY ! (j - 2))
            (planeGeometry width height segX segY ! (j - 1))
     else planeGeometry width height segX segY ! j)"
  using assms by (simp add: createCliffGeometry_def cliff_loop_z cliff_loop_keep)

lemma rock_loop_length: "length (rock_loop s f sx sz i ps) = length ps"
proof (induction s f sx sz i ps rule: rock_loop.induct)
  case (1 s f sx sz i ps)
  show ?case
  proof (cases "i < length ps")
    case True
    with 1 show ?thesis by (subst rock_loop.simps) (simp add: Let_def)
  next
    case False
    then show ?thesis by (simp add: rock_loop.simps)
  qed
qed

lemma rock_loop_keep:
  "j < i \<Longrightarrow> rock_loop s f sx sz i ps ! j = ps ! j"
proof (induction s f sx sz i ps rule: rock_loop.induct)
  case (1 s f sx sz i ps)
  show ?case
  proof (cases "i < length ps")
    case True
    have k: "j < i + 3" using "1.prems" by simp
    show ?thesis
      using "1.IH"[OF True refl refl refl k] True "1.prems"
      by (subst rock_loop.simps) (simp add: Let_def)
  next
    case False
    then show ?thesis by (simp add: rock_loop.simps)
  qed
qed

lemma rock_loop_nth:
  "3 dvd i \<Longrightarrow> 3 dvd b \<Longrightarrow> i \<le> b \<Longrightarrow> b + 2 < length ps \<Longrightarrow>
   rock_loop s f sx sz i ps ! b = rockX s sx (ps ! b) (ps ! (b + 1)) (ps ! (b + 2)) \<and>
   rock_loop s f sx sz i ps ! (b + 1) = rockY s f (ps ! b) (ps ! (b + 1)) (ps ! (b + 2)) \<and>
   rock_loop s f sx sz i ps ! (b + 2) = rockZ s sz (ps ! b) (ps ! (b + 1)) (ps ! (b + 2))"
proof (induction s f sx sz i ps rule: rock_loop.induct)
  case (1 s f sx sz i ps)
  have lt: "i < length ps" using "1.prems" by simp
  have d3: "3 dvd (i + 3)" using "1.prems"(1) by simp
  let ?ps = "ps[i := rockX s sx (ps ! i) (ps ! (i + 1)) (ps ! (i + 2)),
                i + 1 := rockY s f (ps ! i) (ps ! (i + 1)) (ps ! (i + 2)),
                i + 2 := rockZ s sz (ps ! i) (ps ! (i + 1)) (ps ! (i + 2))]"
  have unf: "rock_loop s f sx sz i ps = rock_loop s f sx sz (i + 3) ?ps"
    using lt by (subst rock_loop.simps) (simp add: Let_def)
  show ?case
  proof (cases "b = i")
    case True
    have "rock_loop s f sx sz (i + 3) ?ps ! i = ?ps ! i"
      by (rule rock_loop_keep) simp
    moreover have "rock_loop s f sx sz (i + 3) ?ps ! (i + 1) = ?ps ! (i + 1)"
      by (rule rock_loop_keep) simp
    moreover have "rock_loop s f sx sz (i + 3) ?ps ! (i + 2) = ?ps ! (i + 2)"
      by (rule rock_loop_keep) simp
    ultimately show ?thesis using True "1.prems"(4) unfolding unf by simp
  next
    case False
    obtain m n where mn: "i = 3 * m" "b = 3 * n" using "1.prems"(1,2) by (auto simp: dvd_def)
    have le: "i + 3 \<le> b" using False "1.prems"(3) mn by auto
    have len: "b + 2 < length ?ps" using "1.prems"(4) by simp
    have same: "?ps ! b = ps ! b" "?ps ! (b + 1) = ps ! (b + 1)" "?ps ! (b + 2) = ps ! (b + 2)"
      using le by auto
    from "1.IH"[OF lt refl refl refl d3 "1.prems"(2) le len] same
    show ?thesis unfolding unf by simp
  qed
qed

lemma createRockGeometry_nth:
  assumes "3 dvd b" and "b + 2 < length (icosahedronGeometry baseSize detail)"
  shows "createRockGeometry icosahedronGeometry baseSize detail seed flattenBottom stretchX stretchZ ! b =
      rockX seed stretchX (icosahedronGeometry baseSize detail ! b)
        (icosahedronGeometry baseSize detail ! (b + 1)) (icosahedronGeometry baseSize detail ! (b + 2)) \<and>
    createRockGeometry icosahedronGeometry baseSize detail seed flattenBottom stretchX stretchZ ! (b + 1) =
      rockY seed flattenBottom (icosahedronGeometry baseSize detail ! b)
        (icosahedronGeometry baseSize detail ! (b + 1)) (icosahedronGeometry baseSize detail ! (b + 2)) \<and>
    createRockGeometry icosahedronGeometry baseSize detail seed flattenBottom stretchX stretchZ ! (b + 2) =
      rockZ seed stretchZ (icosahedronGeometry baseSize detail ! b)
        (icosahedronGeometry baseSize detail ! (b + 1)) (icosahedronGeometry baseSize detail ! (b + 2))"
  unfolding createRockGeometry_def by (rule rock_loop_nth[OF _ assms(1) _ assms(2)]) simp_all

section \<open>OceanSurfaceField: the canyon factor\<close>

text \<open>
  The Gaussian of the canyon factor lies in \<open>(0, 1]\<close>, falls as \<open>\<bar>x\<bar>\<close> grows and
  tends to 0 at infinity.
\<close>

lemma canyon_exp_range:
  "0 < exp (((- distFromCenter x) * distFromCenter x) / (w * w)) \<and>
   exp (((- distFromCenter x) * distFromCenter x) / (w * w)) \<le> 1"
proof -
  have "((- distFromCenter x) * distFromCenter x) / (w * w) \<le> 0"
    by (simp add: divide_nonpos_nonneg)
  then show ?thesis by simp
qed

lemma canyon_exp_mono:
  assumes "\<bar>x1\<bar> \<le> \<bar>x2\<bar>"
  shows "exp (((- distFromCenter x2) * distFromCenter x2) / (w * w)) \<le>
         exp (((- distFromCenter x1) * distFromCenter x1) / (w * w))"
proof -
  have "distFromCenter x1 * distFromCenter x1 \<le> distFromCenter x2 * distFromCenter x2"
    using assms by (intro mult_mono) (simp_all add: distFromCenter_def)
  then have "(distFromCenter x1 * distFromCenter x1) / (w * w) \<le>
             (distFromCenter x2 * distFromCenter x2) / (w * w)"
    by (intro divide_right_mono) simp_all
  then show ?thesis by simp
qed

lemma canyon_exp_strict:
  assumes "\<bar>x1\<bar> < \<bar>x2\<bar>" "w \<noteq> 0"
  shows "exp (((- distFromCenter x2) * distFromCenter x2) / (w * w)) <
         exp (((- distFromCenter x1) * distFromCenter x1) / (w * w))"
proof -
  have "distFromCenter x1 * distFromCenter x1 < distFromCenter x2 * distFromCenter x2"
    using assms by (intro mult_strict_mono') (simp_all add: distFromCenter_def)
  moreover have "0 < w * w" using assms(2) by (auto simp: zero_less_mult_iff)
  ultimately have "(distFromCenter x1 * distFromCenter x1) / (w * w) <
             (distFromCenter x2 * distFromCenter x2) / (w * w)"
    by (simp add: divide_strict_right_mono)
  then show ?thesis by simp
qed

lemma canyon_exp_tendsto:
  assumes "w \<noteq> 0"
  shows "((\<lambda>x. exp (((- distFromCenter x) * distFromCenter x) / (w * w))) \<longlongrightarrow> 0) at_infinity"
proof -
  define c where "c = 1 / (150 * 150 * (w * w))"
  have c: "0 < c" using assms by (auto simp: c_def zero_less_mult_iff)
  have eq: "((- distFromCenter x) * distFromCenter x) / (w * w) = - (c * (norm x)^2)" for x
    by (simp add: distFromCenter_def c_def power2_eq_square)
  have "filterlim (\<lambda>x::real. (norm x)^2) at_top at_infinity"
    by (intro filterlim_pow_at_top filterlim_norm_at_top) simp
  then have "filterlim (\<lambda>x::real. c * (norm x)^2) at_top at_infinity"
    using c by (intro filterlim_tendsto_pos_mult_at_top[OF tendsto_const])
  then have "filterlim (\<lambda>x::real. - (c * (norm x)^2)) at_bot at_infinity"
    by (simp add: filterlim_uminus_at_bot)
  then have "((\<lambda>x::real. exp (- (c * (norm x)^2))) \<longlongrightarrow> 0) at_infinity"
    by (rule filterlim_compose[OF exp_at_bot])
  then show ?thesis by (simp only: eq)
qed

text \<open>
  Claim C5. With \<^verbatim>\<open>canyonAmplification\<close> at least 1 and \<^verbatim>\<open>canyonFocusWidth\<close>
  positive: on the axis \<open>x = 0\<close> the canyon factor is the amplification itself; for
  every \<open>x\<close> it lies between 1 and the amplification; it does not grow when \<open>\<bar>x\<bar>\<close>
  grows (and falls strictly when the amplification exceeds 1); and it tends to 1 as
  \<open>\<bar>x\<bar>\<close> tends to infinity. Both copies of the component compute the factor by this
  expression.
\<close>

theorem canyonFactor_profile:
  assumes "1 \<le> canyonAmplification config" and "0 < canyonFocusWidth config"
  shows "canyonFactor config 0 = canyonAmplification config \<and>
    (\<forall>x. 1 \<le> canyonFactor config x \<and> canyonFactor config x \<le> canyonAmplification config) \<and>
    (\<forall>x1 x2. \<bar>x1\<bar> \<le> \<bar>x2\<bar> \<longrightarrow> canyonFactor config x2 \<le> canyonFactor config x1) \<and>
    (1 < canyonAmplification config \<longrightarrow>
       (\<forall>x1 x2. \<bar>x1\<bar> < \<bar>x2\<bar> \<longrightarrow> canyonFactor config x2 < canyonFactor config x1)) \<and>
    (canyonFactor config \<longlongrightarrow> 1) at_infinity"
proof -
  let ?a = "canyonAmplification config - 1"
  let ?w = "canyonFocusWidth config"
  let ?e = "\<lambda>x. exp (((- distFromCenter x) * distFromCenter x) / (?w * ?w))"
  have a: "0 \<le> ?a" using assms(1) by simp
  have w: "?w \<noteq> 0" using assms(2) by simp
  have cf: "canyonFactor config x = 1 + ?a * ?e x" for x
    by (simp add: canyonFactor_def)
  have p1: "canyonFactor config 0 = canyonAmplification config"
    by (simp add: canyonFactor_def distFromCenter_def)
  have p2: "1 \<le> canyonFactor config x \<and> canyonFactor config x \<le> canyonAmplification config" for x
  proof -
    have "0 \<le> ?a * ?e x" using a by simp
    moreover have "?a * ?e x \<le> ?a * 1"
      using a canyon_exp_range[of x ?w] by (intro mult_left_mono) simp_all
    ultimately show ?thesis unfolding cf by simp
  qed
  have p3: "canyonFactor config x2 \<le> canyonFactor config x1" if "\<bar>x1\<bar> \<le> \<bar>x2\<bar>" for x1 x2
    unfolding cf using canyon_exp_mono[OF that, of ?w] a by (simp add: mult_left_mono)
  have p4: "canyonFactor config x2 < canyonFactor config x1"
    if "1 < canyonAmplification config" "\<bar>x1\<bar> < \<bar>x2\<bar>" for x1 x2
    unfolding cf using canyon_exp_strict[OF that(2) w] that(1) by simp
  have "((\<lambda>x. 1 + ?a * ?e x) \<longlongrightarrow> 1 + ?a * 0) at_infinity"
    by (intro tendsto_add tendsto_mult tendsto_const canyon_exp_tendsto[OF w])
  then have p5: "(canyonFactor config \<longlongrightarrow> 1) at_infinity"
    by (simp add: canyonFactor_def[abs_def])
  from p1 p2 p3 p4 p5 show ?thesis by blast
qed

text \<open>
  Claim C5 at the default configuration (amplification 2, focus width 0.4): the factor
  is 2 on the axis, and falls from \<open>x = -75\<close> to \<open>x = 150\<close>.
\<close>

theorem canyonFactor_profile_witness:
  "1 \<le> canyonAmplification (defaultWaveConfig ''#ffffff'' dark) \<and>
   0 < canyonFocusWidth (defaultWaveConfig ''#ffffff'' dark) \<and>
   canyonFactor (defaultWaveConfig ''#ffffff'' dark) 0 = 2 \<and>
   1 \<le> canyonFactor (defaultWaveConfig ''#ffffff'' dark) 150 \<and>
   canyonFactor (defaultWaveConfig ''#ffffff'' dark) 150 < canyonFactor (defaultWaveConfig ''#ffffff'' dark) (- 75) \<and>
   canyonFactor (defaultWaveConfig ''#ffffff'' dark) (- 75) \<le> 2 \<and>
   (canyonFactor (defaultWaveConfig ''#ffffff'' dark) \<longlongrightarrow> 1) at_infinity"
proof -
  let ?D = "defaultWaveConfig ''#ffffff'' dark"
  have h1: "1 \<le> canyonAmplification ?D" and h2: "0 < canyonFocusWidth ?D"
    and h3: "1 < canyonAmplification ?D" and a: "canyonAmplification ?D = 2"
    by (simp_all add: defaultWaveConfig_def)
  note t = canyonFactor_profile[OF h1 h2]
  from t have "canyonFactor ?D 0 = 2" using a by simp
  moreover from t have "1 \<le> canyonFactor ?D 150" by blast
  moreover from t have "canyonFactor ?D (- 75) \<le> 2" using a by auto
  moreover from t h3 have "\<forall>x1 x2. \<bar>x1\<bar> < \<bar>x2\<bar> \<longrightarrow> canyonFactor ?D x2 < canyonFactor ?D x1"
    by blast
  then have "canyonFactor ?D 150 < canyonFactor ?D (- 75)" by simp
  moreover from t have "(canyonFactor ?D \<longlongrightarrow> 1) at_infinity" by blast
  ultimately show ?thesis using h1 h2 by blast
qed

section \<open>OceanSurfaceField: phase speed\<close>

text \<open>
  Claim C2. The phase of the primary wave is \<open>k \<cdot> (sin d \<cdot> x + cos d \<cdot> z - v \<cdot> time)\<close>
  with the speed \<open>v = 9.8 \<cdot> wavePeriod / (2\<pi>) \<cdot> waveSpeed \<cdot> 0.3\<close>, for every
  configuration; the phase of the secondary wave has the same expression in
  \<^verbatim>\<open>secondaryWavePeriod\<close> for its speed. These are the values of \<^verbatim>\<open>primaryWaveSpeed\<close>
  and \<^verbatim>\<open>secondaryWaveSpeed\<close> in \<^verbatim>\<open>useFrame\<close>.
\<close>

theorem phase_speed:
  "primaryPhase config time x z =
     primaryK config * (primarySin config * x + primaryCos config * z -
       (9.8 * wavePeriod config / (2 * pi) * waveSpeed config * 0.3) * time) \<and>
   secondaryPhase config time x z =
     secondaryK config * (secondarySin config * x + secondaryCos config * z -
       (9.8 * secondaryWavePeriod config / (2 * pi) * waveSpeed config * 0.3) * time) \<and>
   primaryWaveSpeed config = 9.8 * wavePeriod config / (2 * pi) * waveSpeed config * 0.3 \<and>
   secondaryWaveSpeed config =
     9.8 * secondaryWavePeriod config / (2 * pi) * waveSpeed config * 0.3"
  by (simp add: primaryPhase_def secondaryPhase_def primaryWaveSpeed_def secondaryWaveSpeed_def
      gravity_def)

text \<open>
  The earlier, wireframe revision of the component computed the phases with the speeds
  \<open>sqrt (9.8 \<cdot> waveLength / (2\<pi>)) \<cdot> 0.5\<close> and the same expression in
  \<open>0.6 \<cdot> waveLength\<close>.
\<close>

lemma phase_speed_wireframe:
  "primaryPhase_wf config time x z =
     primaryK config * (sin (primaryDir config) * x + cos (primaryDir config) * z -
       (sqrt (9.8 * waveLength config / (2 * pi)) * 0.5) * time) \<and>
   secondaryPhase_wf config time x z =
     secondaryK config * (sin (secondaryDir config) * x + cos (secondaryDir config) * z -
       (sqrt (9.8 * (waveLength config * 0.6) / (2 * pi)) * 0.5) * time)"
  by (simp add: primaryPhase_wf_def secondaryPhase_wf_def primarySpeed_def secondarySpeed_def
      secondaryWaveLength_def)

text \<open>
  That these are the speeds of the phase: a point that moves with the speed along the
  direction of the wave keeps its phase.
\<close>

lemma primaryPhase_travels:
  "primaryPhase config (time + dt)
     (x + primarySin config * (primaryWaveSpeed config * dt))
     (z + primaryCos config * (primaryWaveSpeed config * dt)) =
   primaryPhase config time x z"
proof -
  let ?s = "sin (primaryDir config)" and ?c = "cos (primaryDir config)"
  let ?v = "primaryWaveSpeed config"
  have one: "?s * ?s + ?c * ?c = 1"
    using sin_cos_squared_add[of "primaryDir config"] by (simp only: power2_eq_square)
  have "?s * (?s * (?v * dt)) + ?c * (?c * (?v * dt)) = (?s * ?s + ?c * ?c) * (?v * dt)"
    by (simp only: distrib_right mult.assoc)
  then have e: "?s * (?s * (?v * dt)) + ?c * (?c * (?v * dt)) = ?v * dt"
    by (simp only: one mult_1)
  have "?s * (x + ?s * (?v * dt)) + ?c * (z + ?c * (?v * dt)) - ?v * (time + dt) =
        ?s * x + ?c * z - ?v * time + (?s * (?s * (?v * dt)) + ?c * (?c * (?v * dt)) - ?v * dt)"
    by (simp add: algebra_simps)
  then have "?s * (x + ?s * (?v * dt)) + ?c * (z + ?c * (?v * dt)) - ?v * (time + dt) =
        ?s * x + ?c * z - ?v * time"
    by (simp add: e)
  then show ?thesis by (simp only: primaryPhase_def primarySin_def primaryCos_def)
qed

lemma primaryPhase_wf_travels:
  "primaryPhase_wf config (time + dt)
     (x + sin (primaryDir config) * (primarySpeed config * dt))
     (z + cos (primaryDir config) * (primarySpeed config * dt)) =
   primaryPhase_wf config time x z"
proof -
  let ?s = "sin (primaryDir config)" and ?c = "cos (primaryDir config)"
  let ?v = "primarySpeed config"
  have one: "?s * ?s + ?c * ?c = 1"
    using sin_cos_squared_add[of "primaryDir config"] by (simp only: power2_eq_square)
  have "?s * (?s * (?v * dt)) + ?c * (?c * (?v * dt)) = (?s * ?s + ?c * ?c) * (?v * dt)"
    by (simp only: distrib_right mult.assoc)
  then have e: "?s * (?s * (?v * dt)) + ?c * (?c * (?v * dt)) = ?v * dt"
    by (simp only: one mult_1)
  have "?s * (x + ?s * (?v * dt)) + ?c * (z + ?c * (?v * dt)) - ?v * (time + dt) =
        ?s * x + ?c * z - ?v * time + (?s * (?s * (?v * dt)) + ?c * (?c * (?v * dt)) - ?v * dt)"
    by (simp add: algebra_simps)
  then have "?s * (x + ?s * (?v * dt)) + ?c * (z + ?c * (?v * dt)) - ?v * (time + dt) =
        ?s * x + ?c * z - ?v * time"
    by (simp add: e)
  then show ?thesis by (simp only: primaryPhase_wf_def)
qed

section \<open>OceanSurfaceField: wind chop\<close>

text \<open>
  Claim C6. If \<^verbatim>\<open>windChopIntensity\<close> is 0 then, whatever the vertex, the time and the
  wind speed, the wind chop is exactly 0 and the height is the primary plus the secondary
  wave; so is the height that the loop stores for each vertex (index \<open>j\<close> with
  \<open>j mod 3 = 1\<close>, in buffers of three numbers for each vertex). This holds in both
  copies of the component.
\<close>

theorem chop_suppression:
  assumes "windChopIntensity config = 0"
  shows "windChop config time x z = 0 \<and>
         totalHeight config time x z = primaryWave config time x z + secondaryWave config time x z \<and>
         windChop_wf config time x z = 0 \<and>
         height_wf config time x z = primaryWave_wf config time x z + secondaryWave_wf config time x z \<and>
         (3 dvd length ps \<and> length orig = length ps \<and> j < length ps \<and> j mod 3 = 1 \<longrightarrow>
            fst (evaluate config bc time orig (ps, cs)) ! j =
              primaryWave config time (orig ! (j - 1)) (orig ! (j + 1)) +
              secondaryWave config time (orig ! (j - 1)) (orig ! (j + 1)) \<and>
            wave_loop_wf config time orig 0 ps ! j =
              primaryWave_wf config time (orig ! (j - 1)) (orig ! (j + 1)) +
              secondaryWave_wf config time (orig ! (j - 1)) (orig ! (j + 1)))"
proof -
  have c: "windChop config t a b = 0" for t a b
    using assms by (simp add: windChop_def windChopMultiplier_def)
  have h: "totalHeight config t a b = primaryWave config t a b + secondaryWave config t a b" for t a b
    by (simp add: totalHeight_def c)
  have cw: "windChop_wf config t a b = 0" for t a b
    using assms by (simp add: windChop_wf_def)
  have hw: "height_wf config t a b = primaryWave_wf config t a b + secondaryWave_wf config t a b"
    for t a b by (simp add: height_wf_def cw)
  have "fst (evaluate config bc time orig (ps, cs)) ! j =
          totalHeight config time (orig ! (j - 1)) (orig ! (j + 1))"
    if "j < length ps" "j mod 3 = 1"
    unfolding evaluate_def using that by (simp add: wave_loop_positions_y)
  moreover have "wave_loop_wf config time orig 0 ps ! j =
          height_wf config time (orig ! (j - 1)) (orig ! (j + 1))"
    if "j < length ps" "j mod 3 = 1"
    using that by (simp add: wave_loop_wf_y)
  ultimately show ?thesis using c h cw hw by simp
qed

text \<open>
  Claim C6 at the default configuration with the chop intensity set to 0, on a grid of
  one vertex.
\<close>

theorem chop_suppression_witness:
  "windChopIntensity ((defaultWaveConfig ''#ffffff'' dark)\<lparr>windChopIntensity := 0\<rparr>) = 0 \<and>
   windChop ((defaultWaveConfig ''#ffffff'' dark)\<lparr>windChopIntensity := 0\<rparr>) 1 2 3 = 0 \<and>
   windChop_wf ((defaultWaveConfig ''#ffffff'' dark)\<lparr>windChopIntensity := 0\<rparr>) 1 2 3 = 0 \<and>
   fst (evaluate ((defaultWaveConfig ''#ffffff'' dark)\<lparr>windChopIntensity := 0\<rparr>)
          \<lparr>color_r = 0, color_g = 0, color_b = 0\<rparr> 1 [2, 0, 3] ([2, 0, 3], [0, 0, 0])) ! 1 =
     primaryWave ((defaultWaveConfig ''#ffffff'' dark)\<lparr>windChopIntensity := 0\<rparr>) 1 2 3 +
     secondaryWave ((defaultWaveConfig ''#ffffff'' dark)\<lparr>windChopIntensity := 0\<rparr>) 1 2 3"
proof -
  let ?C = "(defaultWaveConfig ''#ffffff'' dark)\<lparr>windChopIntensity := 0\<rparr>"
  have h: "windChopIntensity ?C = 0" by simp
  have l: "3 dvd length [2, 0, 3 :: real]" by (simp add: numeral_3_eq_3)
  from chop_suppression[OF h, where time = 1 and x = 2 and z = 3 and j = 1 and ps = "[2, 0, 3]"
      and bc = "\<lparr>color_r = 0, color_g = 0, color_b = 0\<rparr>" and orig = "[2, 0, 3]"
      and cs = "[0, 0, 0]"] h l
  show ?thesis by simp
qed

section \<open>OceanSurfaceField: foam\<close>

lemma foamStep_range:
  assumes "0 \<le> foamIntensity config" "foamIntensity config \<le> 1"
  shows "0 \<le> foamStep config steep h \<and> foamStep config steep h \<le> 1"
proof (cases "steep > foamThreshold2 config")
  case True
  let ?a = "min 1 ((steep - foamThreshold2 config) * 2)"
  have a: "0 \<le> ?a" using True by simp
  have "0 \<le> ?a * foamIntensity config" using a assms(1) by (rule mult_nonneg_nonneg)
  moreover have "0 \<le> crestBonus config h * foamIntensity config * 0.5"
    using assms(1) by (simp add: crestBonus_def)
  ultimately show ?thesis using True by (simp add: foamStep_def)
next
  case False
  then show ?thesis by (simp add: foamStep_def)
qed

text \<open>
  Claim C3. With \<^verbatim>\<open>foamIntensity\<close> in \<open>[0, 1]\<close> and \<^verbatim>\<open>waveHeight\<close> positive, the
  foam step (threshold test, \<open>min 1 ((steepness - threshold) \<cdot> 2) \<cdot> foamIntensity\<close>, crest
  bonus, final clamp) yields a foam amount in \<open>[0, 1]\<close> for every steepness and every
  total height, hence at every vertex and time; and the foam amount is exactly 0 when
  the steepness does not exceed the threshold.
\<close>

theorem foam_bound:
  assumes "0 \<le> foamIntensity config" and "foamIntensity config \<le> 1"
    and "0 < waveHeight config"
  shows "0 \<le> foamStep config steep h \<and> foamStep config steep h \<le> 1 \<and>
         (steep \<le> foamThreshold2 config \<longrightarrow> foamStep config steep h = 0) \<and>
         0 \<le> foamAmount config time x z \<and> foamAmount config time x z \<le> 1 \<and>
         (steepness config time x z \<le> foamThreshold2 config \<longrightarrow> foamAmount config time x z = 0)"
  using foamStep_range[OF assms(1,2)] by (simp add: foamAmount_def foamStep_def)

text \<open>
  Claim C3 at the default configuration (threshold 1.2 after doubling, intensity 0.5,
  wave height 8): no foam at steepness 1, foam 0.625 at steepness 2 and height 8.
\<close>

theorem foam_bound_witness:
  "0 \<le> foamIntensity (defaultWaveConfig ''#ffffff'' dark) \<and>
   foamIntensity (defaultWaveConfig ''#ffffff'' dark) \<le> 1 \<and>
   0 < waveHeight (defaultWaveConfig ''#ffffff'' dark) \<and>
   foamStep (defaultWaveConfig ''#ffffff'' dark) 1 8 = 0 \<and>
   foamStep (defaultWaveConfig ''#ffffff'' dark) 2 8 = 5 / 8 \<and>
   0 \<le> foamAmount (defaultWaveConfig ''#ffffff'' dark) 0 0 0 \<and>
   foamAmount (defaultWaveConfig ''#ffffff'' dark) 0 0 0 \<le> 1"
proof -
  let ?D = "defaultWaveConfig ''#ffffff'' dark"
  have h: "0 \<le> foamIntensity ?D" "foamIntensity ?D \<le> 1" "0 < waveHeight ?D"
    by (simp_all add: defaultWaveConfig_def)
  have e: "foamStep ?D 1 8 = 0" "foamStep ?D 2 8 = 5 / 8"
    by (simp_all add: foamStep_def foamThreshold2_def crestBonus_def defaultWaveConfig_def)
  from foam_bound[OF h, of 1 8 0 0 0] h e show ?thesis by simp
qed

lemma foamAmount_unit:
  assumes "0 \<le> foamIntensity config" "foamIntensity config \<le> 1"
  shows "0 \<le> foamAmount config time x z \<and> foamAmount config time x z \<le> 1"
  using foamStep_range[OF assms] by (simp add: foamAmount_def)

lemma foamStep_no_intensity: "foamIntensity config = 0 \<Longrightarrow> foamStep config steep h = 0"
  by (simp add: foamStep_def)

section \<open>OceanSurfaceField: vertex colours\<close>

lemma blend_unit:
  assumes "0 \<le> t" "t \<le> 1" "0 \<le> f" "f \<le> 1"
  shows "0 \<le> t + (1 - t) * f \<and> t + (1 - t) * f \<le> (1::real)"
proof -
  have "0 \<le> (1 - t) * f" using assms by simp
  moreover have "(1 - t) * f \<le> (1 - t) * 1" using assms by (intro mult_left_mono) simp_all
  ultimately show ?thesis using assms by simp
qed

lemma blend_max:
  assumes "0 \<le> t" "0 \<le> f" "f \<le> 1"
  shows "0 \<le> t + (1 - t) * f \<and> t + (1 - t) * f \<le> max (1::real) t"
proof -
  have e: "t + (1 - t) * f = t * (1 - f) + f" by (simp add: algebra_simps)
  have "0 \<le> t * (1 - f)" using assms by simp
  moreover have "t * (1 - f) \<le> max 1 t * (1 - f)" using assms by (intro mult_right_mono) simp_all
  moreover have "f \<le> max 1 t * f" using assms by (simp add: mult_le_cancel_right1 max_def)
  moreover have "max 1 t * (1 - f) + max 1 t * f = max 1 t" by (simp add: algebra_simps)
  ultimately show ?thesis unfolding e using assms by linarith
qed

lemma turbidR_unit:
  assumes "0 \<le> color_r bc" "color_r bc \<le> 1" "0 \<le> waterClarity config" "waterClarity config \<le> 1"
  shows "0 \<le> turbidR config bc \<and> turbidR config bc \<le> 1"
proof -
  let ?k = "1 - murkiness config * 0.3"
  have k: "0 \<le> ?k" "?k \<le> 1" using assms(3,4) by (simp_all add: murkiness_def clarityFactor_def)
  have "color_r bc * ?k \<le> 1 * 1" using assms(1,2) k by (intro mult_mono) simp_all
  moreover have "0 \<le> color_r bc * ?k" using assms(1) k by simp
  ultimately show ?thesis by (simp add: turbidR_def)
qed

lemma turbidB_unit:
  assumes "0 \<le> color_b bc" "color_b bc \<le> 1" "0 \<le> waterClarity config" "waterClarity config \<le> 1"
  shows "0 \<le> turbidB config bc \<and> turbidB config bc \<le> 1"
proof -
  let ?k = "1 - murkiness config * 0.2"
  have k: "0 \<le> ?k" "?k \<le> 1" using assms(3,4) by (simp_all add: murkiness_def clarityFactor_def)
  have "color_b bc * ?k \<le> 1 * 1" using assms(1,2) k by (intro mult_mono) simp_all
  moreover have "0 \<le> color_b bc * ?k" using assms(1) k by simp
  ultimately show ?thesis by (simp add: turbidB_def)
qed

lemma turbidG_range:
  assumes "0 \<le> color_g bc" "color_g bc \<le> 1" "0 \<le> waterClarity config" "waterClarity config \<le> 1"
  shows "0 \<le> turbidG config bc \<and> turbidG config bc \<le> 11 / 10"
proof -
  let ?k = "1 + murkiness config * 0.1"
  have k: "0 \<le> ?k" "?k \<le> 11 / 10"
    using assms(3,4) by (simp_all add: murkiness_def clarityFactor_def)
  have "color_g bc * ?k \<le> 1 * (11 / 10)" using assms(1,2) k by (intro mult_mono) simp_all
  moreover have "0 \<le> color_g bc * ?k" using assms(1) k by simp
  ultimately show ?thesis by (simp add: turbidG_def)
qed

text \<open>
  Claim C1, as amended. Let the channels of the base colour, \<^verbatim>\<open>waterClarity\<close> and
  \<^verbatim>\<open>foamIntensity\<close> lie in \<open>[0, 1]\<close> (and \<^verbatim>\<open>waveHeight\<close> be non-zero, so that the
  crest bonus is a number). Then every value that a pass of the loop stores in the colour
  buffer is at least 0; the red and the blue value are at most 1; the green value is at
  most 1.1, and at most 1 whenever the tinted green \<open>g \<cdot> (1 + (1 - waterClarity) \<cdot> 0.1)\<close>
  is at most 1. The loop does not clamp the colours it stores.
\<close>

theorem vertex_colors_range:
  assumes "0 \<le> color_r bc" "color_r bc \<le> 1" "0 \<le> color_g bc" "color_g bc \<le> 1"
    "0 \<le> color_b bc" "color_b bc \<le> 1"
    and "0 \<le> waterClarity config" "waterClarity config \<le> 1"
    and "0 \<le> foamIntensity config" "foamIntensity config \<le> 1"
    and "waveHeight config \<noteq> 0"
    and "3 dvd length ps" "length orig = length ps" "length cs = length ps" "j < length cs"
  shows "0 \<le> snd (evaluate config bc time orig (ps, cs)) ! j \<and>
    (j mod 3 \<noteq> 1 \<longrightarrow> snd (evaluate config bc time orig (ps, cs)) ! j \<le> 1) \<and>
    (j mod 3 = 1 \<longrightarrow>
       snd (evaluate config bc time orig (ps, cs)) ! j \<le> 11 / 10 \<and>
       (color_g bc * (1 + (1 - waterClarity config) * 0.1) \<le> 1 \<longrightarrow>
          snd (evaluate config bc time orig (ps, cs)) ! j \<le> 1))"
proof -
  let ?b = "3 * (j div 3)"
  let ?f = "foamAmount config time (orig ! ?b) (orig ! (?b + 2))"
  let ?out = "snd (evaluate config bc time orig (ps, cs))"
  have n: "3 dvd length cs" using assms(12,14) by simp
  note v = vertex_index[OF n assms(15)]
  have lp: "?b < length ps" and lc: "?b + 2 < length cs" using v(2) assms(14) by simp_all
  from wave_loop_colors[OF _ v(1) _ lp lc, of 0 config bc time orig]
  have out: "?out ! ?b = colorR config bc ?f" "?out ! (?b + 1) = colorG config bc ?f"
    "?out ! (?b + 2) = colorB config bc ?f"
    by (simp_all add: evaluate_def)
  have f: "0 \<le> ?f" "?f \<le> 1" using foamAmount_unit[OF assms(9,10)] by simp_all
  have r: "0 \<le> colorR config bc ?f \<and> colorR config bc ?f \<le> 1"
    unfolding colorR_def using turbidR_unit[OF assms(1,2,7,8)] f by (intro blend_unit) simp_all
  have bl: "0 \<le> colorB config bc ?f \<and> colorB config bc ?f \<le> 1"
    unfolding colorB_def using turbidB_unit[OF assms(5,6,7,8)] f by (intro blend_unit) simp_all
  have tg: "0 \<le> turbidG config bc" "turbidG config bc \<le> 11 / 10"
    using turbidG_range[OF assms(3,4,7,8)] by simp_all
  have g: "0 \<le> colorG config bc ?f \<and> colorG config bc ?f \<le> max 1 (turbidG config bc)"
    unfolding colorG_def using tg f by (intro blend_max) simp_all
  have "max 1 (turbidG config bc) \<le> 11 / 10" using tg(2) by simp
  then have g1: "colorG config bc ?f \<le> 11 / 10" using g by linarith
  have g2: "colorG config bc ?f \<le> 1" if "color_g bc * (1 + (1 - waterClarity config) * 0.1) \<le> 1"
  proof -
    have "turbidG config bc \<le> 1"
      using that by (simp add: turbidG_def murkiness_def clarityFactor_def)
    then show ?thesis using g by simp
  qed
  from v(3) show ?thesis
  proof (elim disjE)
    assume j: "j = ?b"
    then have "j mod 3 = 0" by presburger
    moreover have "?out ! j = colorR config bc ?f" using out(1) j by simp
    ultimately show ?thesis using r by simp
  next
    assume j: "j = ?b + 1"
    then have "j mod 3 = 1" by presburger
    moreover have "?out ! j = colorG config bc ?f" using out(2) j by simp
    ultimately show ?thesis using g g1 g2 by simp
  next
    assume j: "j = ?b + 2"
    then have "j mod 3 = 2" by presburger
    moreover have "?out ! j = colorB config bc ?f" using out(3) j by simp
    ultimately show ?thesis using bl by simp
  qed
qed

text \<open>
  Claim C1, as amended, at the default configuration with the base colour \<open>(0, 0.5, 1)\<close>,
  on a grid of one vertex: the green and the blue value stored are in \<open>[0, 1]\<close>.
\<close>

theorem vertex_colors_range_witness:
  "0 \<le> snd (evaluate (defaultWaveConfig ''#ffffff'' dark) \<lparr>color_r = 0, color_g = 1 / 2, color_b = 1\<rparr> 0
            [0, 0, 0] ([0, 0, 0], [0, 0, 0])) ! 1 \<and>
   snd (evaluate (defaultWaveConfig ''#ffffff'' dark) \<lparr>color_r = 0, color_g = 1 / 2, color_b = 1\<rparr> 0
            [0, 0, 0] ([0, 0, 0], [0, 0, 0])) ! 1 \<le> 1 \<and>
   0 \<le> snd (evaluate (defaultWaveConfig ''#ffffff'' dark) \<lparr>color_r = 0, color_g = 1 / 2, color_b = 1\<rparr> 0
            [0, 0, 0] ([0, 0, 0], [0, 0, 0])) ! 2 \<and>
   snd (evaluate (defaultWaveConfig ''#ffffff'' dark) \<lparr>color_r = 0, color_g = 1 / 2, color_b = 1\<rparr> 0
            [0, 0, 0] ([0, 0, 0], [0, 0, 0])) ! 2 \<le> 1"
proof -
  let ?D = "defaultWaveConfig ''#ffffff'' dark"
  let ?B = "\<lparr>color_r = 0, color_g = 1 / 2, color_b = 1\<rparr>"
  have c: "0 \<le> color_r ?B" "color_r ?B \<le> 1" "0 \<le> color_g ?B" "color_g ?B \<le> 1"
    "0 \<le> color_b ?B" "color_b ?B \<le> 1" by simp_all
  have d: "0 \<le> waterClarity ?D" "waterClarity ?D \<le> 1" "0 \<le> foamIntensity ?D"
    "foamIntensity ?D \<le> 1" "waveHeight ?D \<noteq> 0"
    by (simp_all add: defaultWaveConfig_def)
  have l: "3 dvd length [0, 0, 0 :: real]" "length [0, 0, 0 :: real] = length [0, 0, 0 :: real]"
    by (simp_all add: numeral_3_eq_3)
  have j1: "(1::nat) < length [0, 0, 0 :: real]" and j2: "(2::nat) < length [0, 0, 0 :: real]"
    by simp_all
  have g: "color_g ?B * (1 + (1 - waterClarity ?D) * 0.1) \<le> 1"
    by (simp add: defaultWaveConfig_def)
  have m: "(1::nat) mod 3 = 1" "(2::nat) mod 3 \<noteq> 1" by simp_all
  from vertex_colors_range[OF c d l(1) l(2) l(2) j1, of 0] g m(1)
  have a: "0 \<le> snd (evaluate ?D ?B 0 [0, 0, 0] ([0, 0, 0], [0, 0, 0])) ! 1"
    "snd (evaluate ?D ?B 0 [0, 0, 0] ([0, 0, 0], [0, 0, 0])) ! 1 \<le> 1"
    by blast+
  from vertex_colors_range[OF c d l(1) l(2) l(2) j2, of 0] m(2)
  have b: "0 \<le> snd (evaluate ?D ?B 0 [0, 0, 0] ([0, 0, 0], [0, 0, 0])) ! 2"
    "snd (evaluate ?D ?B 0 [0, 0, 0] ([0, 0, 0], [0, 0, 0])) ! 2 \<le> 1"
    by blast+
  from a b show ?thesis by blast
qed

text \<open>
  Claim C1 as stated fails on the green channel: with a white base colour, water clarity
  0 and foam intensity 0 (all within \<open>[0, 1]\<close>), the loop stores 1.1 as the green value
  of the vertex.
\<close>

theorem vertex_colors_counterexample:
  "1 < snd (evaluate ((defaultWaveConfig ''#ffffff'' dark)\<lparr>waterClarity := 0, foamIntensity := 0\<rparr>)
             \<lparr>color_r = 1, color_g = 1, color_b = 1\<rparr> 0 [0, 0, 0] ([0, 0, 0], [0, 0, 0])) ! 1 \<and>
   snd (evaluate ((defaultWaveConfig ''#ffffff'' dark)\<lparr>waterClarity := 0, foamIntensity := 0\<rparr>)
             \<lparr>color_r = 1, color_g = 1, color_b = 1\<rparr> 0 [0, 0, 0] ([0, 0, 0], [0, 0, 0])) ! 1 = 11 / 10"
proof -
  let ?C = "(defaultWaveConfig ''#ffffff'' dark)\<lparr>waterClarity := 0, foamIntensity := 0\<rparr>"
  let ?W = "\<lparr>color_r = 1, color_g = 1, color_b = 1\<rparr>"
  have f: "foamAmount ?C t x z = 0" for t x z
    by (simp add: foamAmount_def foamStep_no_intensity)
  have "snd (wave_loop ?C ?W 0 [0, 0, 0] 0 [0, 0, 0] [0, 0, 0]) ! (0 + 1) =
          colorG ?C ?W (foamAmount ?C 0 ([0, 0, 0] ! 0) ([0, 0, 0] ! (0 + 2)))"
    by (rule wave_loop_colors[THEN conjunct2, THEN conjunct1]) simp_all
  then have "snd (evaluate ?C ?W 0 [0, 0, 0] ([0, 0, 0], [0, 0, 0])) ! 1 = colorG ?C ?W 0"
    by (simp add: evaluate_def f)
  moreover have "colorG ?C ?W 0 = 11 / 10"
    by (simp add: colorG_def turbidG_def murkiness_def clarityFactor_def)
  ultimately show ?thesis by simp
qed

section \<open>OceanSurfaceField: the output of a frame depends on its inputs only\<close>

lemma evaluate_same:
  assumes "3 dvd length orig"
    and "length p1 = length orig" "length p2 = length orig"
    and "length c1 = length orig" "length c2 = length orig"
    and "\<forall>j<length orig. j mod 3 \<noteq> 1 \<longrightarrow> p1 ! j = p2 ! j"
  shows "evaluate config bc time orig (p1, c1) = evaluate config bc time orig (p2, c2)"
proof -
  let ?e1 = "evaluate config bc time orig (p1, c1)"
  let ?e2 = "evaluate config bc time orig (p2, c2)"
  have "fst ?e1 = fst ?e2"
  proof (rule nth_equalityI)
    show "length (fst ?e1) = length (fst ?e2)" using assms(2,3) by (simp add: evaluate_length)
  next
    fix j assume "j < length (fst ?e1)"
    then have j: "j < length orig" using assms(2) by (simp add: evaluate_length)
    show "fst ?e1 ! j = fst ?e2 ! j"
    proof (cases "j mod 3 = 1")
      case True
      then show ?thesis using j assms(2,3) by (simp add: evaluate_def wave_loop_positions_y)
    next
      case False
      then show ?thesis using j assms(6) by (simp add: evaluate_keeps_grid)
    qed
  qed
  moreover have "snd ?e1 = snd ?e2"
  proof (rule nth_equalityI)
    show "length (snd ?e1) = length (snd ?e2)" using assms(4,5) by (simp add: evaluate_length)
  next
    fix j assume "j < length (snd ?e1)"
    then have j: "j < length orig" using assms(4) by (simp add: evaluate_length)
    let ?b = "3 * (j div 3)"
    note v = vertex_index[OF assms(1) j]
    have l1: "?b < length p1" "?b + 2 < length c1" and l2: "?b < length p2" "?b + 2 < length c2"
      using v(2) assms(2-5) by simp_all
    note w1 = wave_loop_colors[OF _ v(1) _ l1, of 0 config bc time orig]
    note w2 = wave_loop_colors[OF _ v(1) _ l2, of 0 config bc time orig]
    have "snd ?e1 ! ?b = snd ?e2 ! ?b" "snd ?e1 ! (?b + 1) = snd ?e2 ! (?b + 1)"
      "snd ?e1 ! (?b + 2) = snd ?e2 ! (?b + 2)"
      using w1 w2 by (simp_all add: evaluate_def)
    then show "snd ?e1 ! j = snd ?e2 ! j" using v(3) by metis
  qed
  ultimately show ?thesis by (simp add: prod_eq_iff)
qed

text \<open>
  Claim C4. Two frame callbacks that find the mesh attached, with the same configuration,
  the same base grid (in \<^verbatim>\<open>originalPositions\<close> and as the \<open>x\<close> and \<open>z\<close> of the position
  buffer, which no pass overwrites) and the same accumulated time after the advance,
  leave the same position buffer and the same colour buffer, whatever the two buffers
  held before (heights and colours of earlier frames) and whatever the deltas were.
\<close>

theorem frame_deterministic:
  assumes "meshRef st1 = Some g1" and "meshRef st2 = Some g2"
    and "originalPositions st1 = originalPositions st2"
    and "advance config d1 (timeRef st1) = advance config d2 (timeRef st2)"
    and "3 dvd length (originalPositions st1)"
    and "length (position_array g1) = length (originalPositions st1)"
    and "length (position_array g2) = length (originalPositions st1)"
    and "length (color_array g1) = length (originalPositions st1)"
    and "length (color_array g2) = length (originalPositions st1)"
    and "\<forall>j<length (originalPositions st1). j mod 3 \<noteq> 1 \<longrightarrow>
           position_array g1 ! j = originalPositions st1 ! j \<and>
           position_array g2 ! j = originalPositions st1 ! j"
  shows "meshRef (useFrame tc config d1 st1) = meshRef (useFrame tc config d2 st2)"
proof -
  let ?t = "advance config d1 (timeRef st1)"
  let ?bc = "tc (waveColor config)"
  have g: "\<forall>j<length (originalPositions st1). j mod 3 \<noteq> 1 \<longrightarrow>
      position_array g1 ! j = position_array g2 ! j"
    using assms(10) by simp
  have "evaluate config ?bc ?t (originalPositions st1) (position_array g1, color_array g1) =
        evaluate config ?bc ?t (originalPositions st1) (position_array g2, color_array g2)"
    by (rule evaluate_same[OF assms(5-9) g])
  then show ?thesis
    using assms(1-4) by (simp add: useFrame_def Let_def)
qed

text \<open>
  Claim C4 at two states over the same grid of one vertex, with different heights and
  colours left in their buffers and different times before the callback (0 advanced by 3,
  1 advanced by 2): the callbacks leave the same geometry.
\<close>

theorem frame_deterministic_witness:
  "meshRef (useFrame (\<lambda>s. \<lparr>color_r = 0, color_g = 1 / 2, color_b = 1\<rparr>) (defaultWaveConfig ''#ffffff'' dark) 3
     \<lparr>meshRef = Some \<lparr>position_array = [1, 5, 2], color_array = [0, 0, 0]\<rparr>, timeRef = 0,
      originalPositions = [1, 0, 2]\<rparr>) =
   meshRef (useFrame (\<lambda>s. \<lparr>color_r = 0, color_g = 1 / 2, color_b = 1\<rparr>) (defaultWaveConfig ''#ffffff'' dark) 2
     \<lparr>meshRef = Some \<lparr>position_array = [1, 7, 2], color_array = [1, 1, 1]\<rparr>, timeRef = 1,
      originalPositions = [1, 0, 2]\<rparr>)"
proof -
  let ?D = "defaultWaveConfig ''#ffffff'' dark"
  let ?g1 = "\<lparr>position_array = [1, 5, 2], color_array = [0, 0, 0]\<rparr>"
  let ?g2 = "\<lparr>position_array = [1, 7, 2], color_array = [1, 1, 1]\<rparr>"
  let ?st1 = "\<lparr>meshRef = Some ?g1, timeRef = 0, originalPositions = [1, 0, 2]\<rparr>"
  let ?st2 = "\<lparr>meshRef = Some ?g2, timeRef = 1, originalPositions = [1, 0, 2]\<rparr>"
  have h1: "meshRef ?st1 = Some ?g1" and h2: "meshRef ?st2 = Some ?g2"
    and h3: "originalPositions ?st1 = originalPositions ?st2" by simp_all
  have h4: "advance ?D 3 (timeRef ?st1) = advance ?D 2 (timeRef ?st2)"
    by (simp add: advance_def defaultWaveConfig_def)
  have h5: "3 dvd length (originalPositions ?st1)" by (simp add: numeral_3_eq_3)
  have h6: "length (position_array ?g1) = length (originalPositions ?st1)"
    "length (position_array ?g2) = length (originalPositions ?st1)"
    "length (color_array ?g1) = length (originalPositions ?st1)"
    "length (color_array ?g2) = length (originalPositions ?st1)" by simp_all
  have h7: "\<forall>j<length (originalPositions ?st1). j mod 3 \<noteq> 1 \<longrightarrow>
           position_array ?g1 ! j = originalPositions ?st1 ! j \<and>
           position_array ?g2 ! j = originalPositions ?st1 ! j"
  proof (intro allI impI)
    fix j :: nat
    assume "j < length (originalPositions ?st1)" and m: "j mod 3 \<noteq> 1"
    then have "j < 3" by simp
    then have "j = 0 \<or> j = 1 \<or> j = 2" by presburger
    with m show "position_array ?g1 ! j = originalPositions ?st1 ! j \<and>
           position_array ?g2 ! j = originalPositions ?st1 ! j" by auto
  qed
  show ?thesis by (rule frame_deterministic[OF h1 h2 h3 h4 h5 h6 h7])
qed

text \<open>
  The invariant that the theorem assumes is set up when the component is mounted
  (\<^verbatim>\<open>originalPositions\<close> is a copy of the position array, and the colour array has one
  entry for each entry of the position array) and is kept by every frame callback.
\<close>

lemma mounted_grid_kept: "3 dvd length grid \<Longrightarrow> grid_kept (mounted grid)"
  by (simp add: grid_kept_def mounted_def list_all_iff)

lemma useFrame_grid_kept:
  assumes "grid_kept st"
  shows "grid_kept (useFrame tc config delta st)"
proof (cases "meshRef st")
  case None
  then show ?thesis using assms by (simp add: useFrame_def)
next
  case (Some geo)
  let ?t = "advance config delta (timeRef st)"
  let ?e = "evaluate config (tc (waveColor config)) ?t (originalPositions st)
              (position_array geo, color_array geo)"
  from assms Some have l: "length (position_array geo) = length (originalPositions st)"
      "length (color_array geo) = length (originalPositions st)"
    and k: "\<forall>j<length (originalPositions st).
              j mod 3 = 1 \<or> position_array geo ! j = originalPositions st ! j"
    by (simp_all add: grid_kept_def list_all_iff)
  have "j mod 3 = 1 \<or> fst ?e ! j = originalPositions st ! j"
    if "j < length (originalPositions st)" for j
  proof (cases "j mod 3 = 1")
    case True
    then show ?thesis by simp
  next
    case False
    then have "fst ?e ! j = position_array geo ! j" by (rule evaluate_keeps_grid)
    moreover have "position_array geo ! j = originalPositions st ! j"
      using k that False by blast
    ultimately show ?thesis by simp
  qed
  then show ?thesis
    using Some l by (simp add: grid_kept_def useFrame_def Let_def evaluate_length list_all_iff)
qed

lemma run_frames_grid_kept: "grid_kept st \<Longrightarrow> grid_kept (run_frames tc frames st)"
proof (induction frames arbitrary: st)
  case Nil
  then show ?case by simp
next
  case (Cons f frames)
  obtain config delta where f: "f = (config, delta)" by (cases f)
  show ?case using Cons.prems by (simp add: f Cons.IH useFrame_grid_kept)
qed

section \<open>AnimationClock\<close>

lemma timeRef_useFrame:
  "timeRef (useFrame tc config delta st) =
     (case meshRef st of None \<Rightarrow> timeRef st | Some geo \<Rightarrow> advance config delta (timeRef st))"
  by (simp add: useFrame_def Let_def split: option.split)

lemma timeRef_useFrame_wf:
  "timeRef (useFrame_wf config delta st) =
     (case meshRef st of None \<Rightarrow> timeRef st | Some geo \<Rightarrow> advance config delta (timeRef st))"
  by (simp add: useFrame_wf_def Let_def split: option.split)

lemma advance_mono: "0 \<le> delta \<Longrightarrow> 0 \<le> timeScale config \<Longrightarrow> t \<le> advance config delta t"
  by (simp add: advance_def)

lemma run_frames_mono:
  "\<forall>(config, delta) \<in> set frames. 0 \<le> delta \<and> 0 \<le> timeScale config \<Longrightarrow>
   timeRef st \<le> timeRef (run_frames tc frames st)"
proof (induction frames arbitrary: st)
  case Nil
  then show ?case by simp
next
  case (Cons f frames)
  obtain config delta where f: "f = (config, delta)" by (cases f)
  have "timeRef st \<le> timeRef (useFrame tc config delta st)"
    using Cons.prems f by (auto simp: timeRef_useFrame advance_mono split: option.split)
  also have "\<dots> \<le> timeRef (run_frames tc frames (useFrame tc config delta st))"
    using Cons.prems by (intro Cons.IH) simp
  finally show ?case by (simp add: f)
qed

lemma run_frames_wf_mono:
  "\<forall>(config, delta) \<in> set frames. 0 \<le> delta \<and> 0 \<le> timeScale config \<Longrightarrow>
   timeRef st \<le> timeRef (run_frames_wf frames st)"
proof (induction frames arbitrary: st)
  case Nil
  then show ?case by simp
next
  case (Cons f frames)
  obtain config delta where f: "f = (config, delta)" by (cases f)
  have "timeRef st \<le> timeRef (useFrame_wf config delta st)"
    using Cons.prems f by (auto simp: timeRef_useFrame_wf advance_mono split: option.split)
  also have "\<dots> \<le> timeRef (run_frames_wf frames (useFrame_wf config delta st))"
    using Cons.prems by (intro Cons.IH) simp
  finally show ?case by (simp add: f)
qed

lemma run_frames_paused:
  "\<forall>(config, delta) \<in> set frames. \<not> animateWaves config \<Longrightarrow>
   timeRef (run_frames tc frames st) = timeRef st"
proof (induction frames arbitrary: st)
  case Nil
  then show ?case by simp
next
  case (Cons f frames)
  obtain config delta where f: "f = (config, delta)" by (cases f)
  have "timeRef (useFrame tc config delta st) = timeRef st"
    using Cons.prems f by (auto simp: timeRef_useFrame advance_def split: option.split)
  moreover have "timeRef (run_frames tc frames (useFrame tc config delta st)) =
      timeRef (useFrame tc config delta st)"
    using Cons.prems by (intro Cons.IH) simp
  ultimately show ?case by (simp add: f)
qed

lemma run_frames_wf_paused:
  "\<forall>(config, delta) \<in> set frames. \<not> animateWaves config \<Longrightarrow>
   timeRef (run_frames_wf frames st) = timeRef st"
proof (induction frames arbitrary: st)
  case Nil
  then show ?case by simp
next
  case (Cons f frames)
  obtain config delta where f: "f = (config, delta)" by (cases f)
  have "timeRef (useFrame_wf config delta st) = timeRef st"
    using Cons.prems f by (auto simp: timeRef_useFrame_wf advance_def split: option.split)
  moreover have "timeRef (run_frames_wf frames (useFrame_wf config delta st)) =
      timeRef (useFrame_wf config delta st)"
    using Cons.prems by (intro Cons.IH) simp
  ultimately show ?case by (simp add: f)
qed

lemma run_frames_append:
  "run_frames tc (xs @ ys) st = run_frames tc ys (run_frames tc xs st)"
  by (induction xs arbitrary: st) auto

lemma run_frames_wf_append:
  "run_frames_wf (xs @ ys) st = run_frames_wf ys (run_frames_wf xs st)"
  by (induction xs arbitrary: st) auto

lemma useFrame_attached: "meshRef st \<noteq> None \<Longrightarrow> meshRef (useFrame tc config delta st) \<noteq> None"
  by (auto simp: useFrame_def Let_def)

lemma useFrame_wf_attached: "meshRef st \<noteq> None \<Longrightarrow> meshRef (useFrame_wf config delta st) \<noteq> None"
  by (auto simp: useFrame_wf_def Let_def)

lemma run_frames_attached:
  "meshRef st \<noteq> None \<Longrightarrow> meshRef (run_frames tc frames st) \<noteq> None"
proof (induction frames arbitrary: st)
  case Nil
  then show ?case by simp
next
  case (Cons f frames)
  obtain config delta where f: "f = (config, delta)" by (cases f)
  show ?case using Cons.prems by (simp add: f Cons.IH useFrame_attached)
qed

lemma run_frames_wf_attached:
  "meshRef st \<noteq> None \<Longrightarrow> meshRef (run_frames_wf frames st) \<noteq> None"
proof (induction frames arbitrary: st)
  case Nil
  then show ?case by simp
next
  case (Cons f frames)
  obtain config delta where f: "f = (config, delta)" by (cases f)
  show ?case using Cons.prems by (simp add: f Cons.IH useFrame_wf_attached)
qed

lemma mounted_attached: "meshRef (mounted grid) \<noteq> None"
  by (simp add: mounted_def)

lemma tick_attached:
  "meshRef st \<noteq> None \<Longrightarrow>
   timeRef (useFrame tc config delta st) =
     (if animateWaves config then timeRef st + delta * timeScale config else timeRef st)"
  by (auto simp: timeRef_useFrame advance_def)

lemma tick_wf_attached:
  "meshRef st \<noteq> None \<Longrightarrow>
   timeRef (useFrame_wf config delta st) =
     (if animateWaves config then timeRef st + delta * timeScale config else timeRef st)"
  by (auto simp: timeRef_useFrame_wf advance_def)

text \<open>
  Claim C7. The callbacks of \<^verbatim>\<open>useFrame\<close> run on the mounted component: the mesh is
  attached to \<^verbatim>\<open>meshRef\<close> before the first callback and stays attached, so the states
  that a callback meets are those reached from \<^term>\<open>mounted grid\<close> by earlier callbacks.
  On every such state: with \<^verbatim>\<open>animateWaves\<close> false the accumulator is left exactly
  unchanged, and with \<^verbatim>\<open>animateWaves\<close> true it grows by exactly \<open>delta \<cdot> timeScale\<close>. After
  any run of callbacks with animation off the accumulator is where it was, and the next
  callback adds its own \<open>delta \<cdot> timeScale\<close> and no more: nothing is caught up. When every
  delta and every time scale is non-negative, the accumulator does not decrease over any
  sequence of callbacks. The wireframe revision of the component behaves the same.
\<close>

theorem clock_tick:
  assumes "st = run_frames tc history (mounted grid)"
    and "stw = run_frames_wf history (mounted grid)"
  shows
   "timeRef (useFrame tc config delta st) =
      (if animateWaves config then timeRef st + delta * timeScale config else timeRef st) \<and>
    timeRef (useFrame_wf config delta stw) =
      (if animateWaves config then timeRef stw + delta * timeScale config else timeRef stw) \<and>
    ((\<forall>(c, d) \<in> set paused. \<not> animateWaves c) \<longrightarrow>
       timeRef (run_frames tc paused st) = timeRef st \<and>
       timeRef (useFrame tc config delta (run_frames tc paused st)) =
         (if animateWaves config then timeRef st + delta * timeScale config else timeRef st) \<and>
       timeRef (run_frames_wf paused stw) = timeRef stw \<and>
       timeRef (useFrame_wf config delta (run_frames_wf paused stw)) =
         (if animateWaves config then timeRef stw + delta * timeScale config else timeRef stw)) \<and>
    ((\<forall>(c, d) \<in> set frames. 0 \<le> d \<and> 0 \<le> timeScale c) \<longrightarrow>
       timeRef st \<le> timeRef (run_frames tc frames st) \<and>
       timeRef stw \<le> timeRef (run_frames_wf frames stw))"
proof -
  have m: "meshRef st \<noteq> None" "meshRef stw \<noteq> None"
    unfolding assms by (simp_all add: run_frames_attached run_frames_wf_attached mounted_attached)
  have mp: "meshRef (run_frames tc paused st) \<noteq> None"
    "meshRef (run_frames_wf paused stw) \<noteq> None"
    using m by (simp_all add: run_frames_attached run_frames_wf_attached)
  have a: "timeRef (useFrame tc config delta st) =
      (if animateWaves config then timeRef st + delta * timeScale config else timeRef st)"
    using m(1) by (rule tick_attached)
  have b: "timeRef (useFrame_wf config delta stw) =
      (if animateWaves config then timeRef stw + delta * timeScale config else timeRef stw)"
    using m(2) by (rule tick_wf_attached)
  have c: "timeRef (run_frames tc paused st) = timeRef st \<and>
       timeRef (useFrame tc config delta (run_frames tc paused st)) =
         (if animateWaves config then timeRef st + delta * timeScale config else timeRef st) \<and>
       timeRef (run_frames_wf paused stw) = timeRef stw \<and>
       timeRef (useFrame_wf config delta (run_frames_wf paused stw)) =
         (if animateWaves config then timeRef stw + delta * timeScale config else timeRef stw)"
    if p: "\<forall>(c, d) \<in> set paused. \<not> animateWaves c"
    using run_frames_paused[OF p, of tc st] run_frames_wf_paused[OF p, of stw]
      tick_attached[OF mp(1), of tc config delta] tick_wf_attached[OF mp(2), of config delta]
    by simp
  have d: "timeRef st \<le> timeRef (run_frames tc frames st) \<and>
       timeRef stw \<le> timeRef (run_frames_wf frames stw)"
    if f: "\<forall>(c, d) \<in> set frames. 0 \<le> d \<and> 0 \<le> timeScale c"
    using run_frames_mono[OF f, of st tc] run_frames_wf_mono[OF f, of stw] by simp
  from a b c d show ?thesis by blast
qed

text \<open>
  Claim C7 at a freshly mounted component of one vertex, with the default configuration
  (time scale 1): a callback with delta 2 gives 2; with animation off it gives 0; after
  two callbacks with animation off a callback with delta 3 gives 3.
\<close>

theorem clock_tick_witness:
  "timeRef (useFrame (\<lambda>s. \<lparr>color_r = 0, color_g = 0, color_b = 0\<rparr>)
      (defaultWaveConfig ''#ffffff'' dark) 2 (mounted [1, 0, 2])) = 2 \<and>
   timeRef (useFrame_wf (defaultWaveConfig ''#ffffff'' dark) 2 (mounted [1, 0, 2])) = 2 \<and>
   timeRef (useFrame (\<lambda>s. \<lparr>color_r = 0, color_g = 0, color_b = 0\<rparr>)
      ((defaultWaveConfig ''#ffffff'' dark)\<lparr>animateWaves := False\<rparr>) 2 (mounted [1, 0, 2])) = 0 \<and>
   timeRef (useFrame (\<lambda>s. \<lparr>color_r = 0, color_g = 0, color_b = 0\<rparr>)
      (defaultWaveConfig ''#ffffff'' dark) 3
      (run_frames (\<lambda>s. \<lparr>color_r = 0, color_g = 0, color_b = 0\<rparr>)
         [((defaultWaveConfig ''#ffffff'' dark)\<lparr>animateWaves := False\<rparr>, 2),
          ((defaultWaveConfig ''#ffffff'' dark)\<lparr>animateWaves := False\<rparr>, 5)]
         (mounted [1, 0, 2]))) = 3 \<and>
   0 \<le> timeRef (run_frames (\<lambda>s. \<lparr>color_r = 0, color_g = 0, color_b = 0\<rparr>)
      [(defaultWaveConfig ''#ffffff'' dark, 2), (defaultWaveConfig ''#ffffff'' dark, 1)]
      (mounted [1, 0, 2]))"
proof -
  let ?tc = "\<lambda>s::string. \<lparr>color_r = 0, color_g = 0, color_b = 0\<rparr>"
  let ?D = "defaultWaveConfig ''#ffffff'' dark"
  let ?P = "?D\<lparr>animateWaves := False\<rparr>"
  let ?M = "mounted [1, 0, 2]"
  have d: "animateWaves ?D" "timeScale ?D = 1" "\<not> animateWaves ?P"
    by (simp_all add: defaultWaveConfig_def)
  have t0: "timeRef ?M = 0" by (simp add: mounted_def)
  have h1: "?M = run_frames ?tc [] ?M" and h2: "?M = run_frames_wf [] ?M" by simp_all
  have f: "\<forall>(c, d) \<in> set [(?D, 2::real), (?D, 1)]. 0 \<le> d \<and> 0 \<le> timeScale c"
    using d by simp
  have p: "\<forall>(c, d) \<in> set [(?P, 2::real), (?P, 5)]. \<not> animateWaves c"
    using d by simp
  note t = clock_tick[OF h1 h2, where config = ?D and delta = 2
      and paused = "[(?P, 2), (?P, 5)]" and frames = "[(?D, 2), (?D, 1)]"]
  note t' = clock_tick[OF h1 h2, where config = ?D and delta = 3
      and paused = "[(?P, 2), (?P, 5)]" and frames = "[(?D, 2), (?D, 1)]"]
  note u = clock_tick[OF h1 h2, where config = ?P and delta = 2
      and paused = "[]" and frames = "[]"]
  from t d(1,2) t0 have a: "timeRef (useFrame ?tc ?D 2 ?M) = 2"
    "timeRef (useFrame_wf ?D 2 ?M) = 2" by simp_all
  from u d(3) t0 have b: "timeRef (useFrame ?tc ?P 2 ?M) = 0" by simp
  from t' p d(1,2) t0
  have c: "timeRef (useFrame ?tc ?D 3 (run_frames ?tc [(?P, 2), (?P, 5)] ?M)) = 3" by simp
  from t f t0 have e: "0 \<le> timeRef (run_frames ?tc [(?D, 2), (?D, 1)] ?M)" by simp
  from a b c e show ?thesis by blast
qed

section \<open>NoiseField\<close>

subsection \<open>Rounding to the nearest double\<close>

lemma rne_bounds: "t - 1 / 2 \<le> of_int (rne t) \<and> of_int (rne t) \<le> t + 1 / 2"
proof -
  let ?f = "of_int \<lfloor>t\<rfloor> :: real"
  have b: "?f \<le> t" "t < ?f + 1" by linarith+
  consider "t - ?f < 1 / 2" | "1 / 2 < t - ?f" | "t - ?f = 1 / 2" by linarith
  then show ?thesis
  proof cases
    case 1
    then have "rne t = \<lfloor>t\<rfloor>" by (simp add: rne_def Let_def)
    then have "(of_int (rne t) :: real) = ?f" by simp
    then show ?thesis using 1 b by linarith
  next
    case 2
    then have "rne t = \<lfloor>t\<rfloor> + 1" by (simp add: rne_def Let_def)
    then have "(of_int (rne t) :: real) = ?f + 1" by simp
    then show ?thesis using 2 b by linarith
  next
    case 3
    then have "rne t = \<lfloor>t\<rfloor> \<or> rne t = \<lfloor>t\<rfloor> + 1" by (simp add: rne_def Let_def)
    then have "(of_int (rne t) :: real) = ?f \<or> (of_int (rne t) :: real) = ?f + 1" by auto
    then show ?thesis using 3 b by linarith
  qed
qed

lemma rne_le: "t \<le> of_int n \<Longrightarrow> rne t \<le> n"
proof -
  assume "t \<le> of_int n"
  with rne_bounds[of t] have "(of_int (rne t) :: real) < of_int n + 1" by linarith
  then have "(of_int (rne t) :: real) < of_int (n + 1)" by simp
  then have "rne t < n + 1" by (simp only: of_int_less_iff)
  then show ?thesis by simp
qed

lemma rne_ge: "of_int n \<le> t \<Longrightarrow> n \<le> rne t"
proof -
  assume "of_int n \<le> t"
  with rne_bounds[of t] have "(of_int n :: real) - 1 < of_int (rne t)" by linarith
  then have "(of_int (n - 1) :: real) < of_int (rne t)" by simp
  then have "n - 1 < rne t" by (simp only: of_int_less_iff)
  then show ?thesis by simp
qed

lemma rne_gt: "of_int n - 1 / 2 < t \<Longrightarrow> n \<le> rne t"
proof -
  assume "of_int n - 1 / 2 < t"
  with rne_bounds[of t] have "(of_int n :: real) - 1 < of_int (rne t)" by linarith
  then have "(of_int (n - 1) :: real) < of_int (rne t)" by simp
  then have "n - 1 < rne t" by (simp only: of_int_less_iff)
  then show ?thesis by simp
qed

lemma ulp_pos: "0 < ulp y"
  by (simp add: ulp_def)

text \<open>The binade of a non-zero number.\<close>

lemma below_next_binade:
  assumes "y \<noteq> 0"
  shows "\<bar>y\<bar> < 2 powr 53 * ulp y"
proof -
  let ?k = "\<lfloor>log 2 \<bar>y\<bar>\<rfloor>"
  let ?e = "max ?k (- 1022)"
  have "\<bar>y\<bar> < 2 powr of_int (?k + 1)"
    using floor_log_eq_powr_iff[of "\<bar>y\<bar>" 2 ?k] assms by simp
  also have "\<dots> \<le> 2 powr of_int (?e + 1)" by (simp add: powr_le_cancel_iff)
  also have "\<dots> = 2 powr 53 * ulp y"
  proof -
    have "(of_int (?e + 1) :: real) = 53 + of_int (?e - 52)" by simp
    then show ?thesis by (simp only: ulp_def ulp_exponent_def powr_add)
  qed
  finally show ?thesis .
qed

lemma above_binade:
  assumes "2 powr (- 1022) \<le> \<bar>y\<bar>"
  shows "2 powr 52 * ulp y \<le> \<bar>y\<bar>"
proof -
  let ?k = "\<lfloor>log 2 \<bar>y\<bar>\<rfloor>"
  have pos: "0 < \<bar>y\<bar>" using assms powr_gt_zero[of 2 "- 1022"] by linarith
  have "2 powr of_int (- 1022) \<le> \<bar>y\<bar>" using assms by simp
  then have "of_int (- 1022) \<le> log 2 \<bar>y\<bar>" using pos by (simp add: le_log_iff)
  then have k: "- 1022 \<le> ?k" by (simp only: le_floor_iff)
  have "2 powr of_int ?k \<le> \<bar>y\<bar>"
    using floor_log_eq_powr_iff[of "\<bar>y\<bar>" 2 ?k] pos by simp
  moreover have "2 powr 52 * ulp y = 2 powr of_int ?k"
  proof -
    have m: "max ?k (- 1022) = ?k" using k by simp
    have "(of_int ?k :: real) = 52 + of_int (?k - 52)" by simp
    then have "(2::real) powr of_int ?k = 2 powr 52 * 2 powr of_int (?k - 52)"
      by (simp only: powr_add)
    then show ?thesis by (simp only: ulp_def ulp_exponent_def m)
  qed
  ultimately show ?thesis by simp
qed

lemma ulp_below_one:
  assumes "y \<noteq> 0" and "\<bar>y\<bar> < 1"
  shows "2 powr 53 * ulp y \<le> 1"
proof -
  let ?k = "\<lfloor>log 2 \<bar>y\<bar>\<rfloor>"
  have "log 2 \<bar>y\<bar> < 0" using assms by simp
  then have "?k < 0" by linarith
  then have e: "max ?k (- 1022) + 1 \<le> 0" by linarith
  have "(53::real) + of_int (max ?k (- 1022) - 52) = of_int (max ?k (- 1022) + 1)" by simp
  then have "2 powr 53 * ulp y = 2 powr of_int (max ?k (- 1022) + 1)"
    by (simp only: ulp_def ulp_exponent_def powr_add[symmetric])
  also have "\<dots> \<le> 2 powr 0" using e by (simp only: powr_le_cancel_iff of_int_le_iff)
  finally show ?thesis by simp
qed

lemma two_powr_53: "(2::real) powr 53 = of_int (2 ^ 53)" and two_powr_52: "(2::real) powr 52 = of_int (2 ^ 52)"
proof -
  have "(2::real) powr (of_nat 53) = 2 ^ 53" by (subst powr_realpow) simp_all
  then show "(2::real) powr 53 = of_int (2 ^ 53)" by simp
  have "(2::real) powr (of_nat 52) = 2 ^ 52" by (subst powr_realpow) simp_all
  then show "(2::real) powr 52 = of_int (2 ^ 52)" by simp
qed

lemma fl_unit:
  assumes "0 \<le> t" and "t < 1"
  shows "0 \<le> fl t \<and> fl t \<le> 1"
proof (cases "t = 0")
  case True
  then show ?thesis by (simp add: fl_def)
next
  case False
  let ?u = "ulp t"
  have u: "0 < ?u" by (rule ulp_pos)
  have "(of_int 0 :: real) \<le> t / ?u" using assms(1) u by simp
  then have lo: "0 \<le> rne (t / ?u)" by (rule rne_ge)
  have "\<bar>t\<bar> < 2 powr 53 * ?u" using False by (rule below_next_binade)
  then have "t / ?u \<le> of_int (2 ^ 53)"
    using u assms(1) by (simp add: pos_divide_le_eq two_powr_53)
  then have "rne (t / ?u) \<le> 2 ^ 53" by (rule rne_le)
  then have "(of_int (rne (t / ?u)) :: real) \<le> of_int (2 ^ 53)" by (simp only: of_int_le_iff)
  then have "of_int (rne (t / ?u)) * ?u \<le> of_int (2 ^ 53) * ?u"
    using u by (simp only: mult_le_cancel_right_pos)
  also have "\<dots> \<le> 1" using ulp_below_one[of t] False assms by (simp add: two_powr_53)
  finally have hi: "of_int (rne (t / ?u)) * ?u \<le> 1" .
  have "0 \<le> of_int (rne (t / ?u)) * ?u" using lo u by simp
  with hi show ?thesis using False by (simp add: fl_def)
qed

lemma fl_negative:
  assumes "2 powr (- 1022) \<le> \<bar>y\<bar>" and "y < 0"
  shows "2 * y \<le> fl y \<and> fl y \<le> y / 2"
proof -
  let ?u = "ulp y"
  have u: "0 < ?u" by (rule ulp_pos)
  have ny: "y \<noteq> 0" using assms(2) by simp
  have a: "2 powr 52 * ?u \<le> - y" using above_binade[OF assms(1)] assms(2) by simp
  have b: "- y < 2 powr 53 * ?u" using below_next_binade[OF ny] assms(2) by simp
  have d: "2 powr 53 * ?u = 2 * (2 powr 52 * ?u)" by (simp add: two_powr_53 two_powr_52)
  have "y / ?u \<le> of_int (- (2 ^ 52))"
    using a u by (simp add: pos_divide_le_eq two_powr_52)
  then have "rne (y / ?u) \<le> - (2 ^ 52)" by (rule rne_le)
  then have "(of_int (rne (y / ?u)) :: real) \<le> of_int (- (2 ^ 52))" by (simp only: of_int_le_iff)
  then have "of_int (rne (y / ?u)) * ?u \<le> of_int (- (2 ^ 52)) * ?u"
    using u by (simp only: mult_le_cancel_right_pos)
  then have hi: "fl y \<le> - (2 powr 52 * ?u)" using ny by (simp add: fl_def two_powr_52)
  have "of_int (- (2 ^ 53)) \<le> y / ?u"
    using b u by (simp add: pos_le_divide_eq two_powr_53)
  then have "- (2 ^ 53) \<le> rne (y / ?u)" by (rule rne_ge)
  then have "(of_int (- (2 ^ 53)) :: real) \<le> of_int (rne (y / ?u))" by (simp only: of_int_le_iff)
  then have "of_int (- (2 ^ 53)) * ?u \<le> of_int (rne (y / ?u)) * ?u"
    using u by (simp only: mult_le_cancel_right_pos)
  then have lo: "- (2 powr 53 * ?u) \<le> fl y" using ny by (simp add: fl_def two_powr_53)
  from hi lo a b d show ?thesis by linarith
qed

lemma fl_just_below_one:
  assumes "1 - 1 / 2 ^ 54 < t" and "t < 1"
  shows "fl t = 1"
proof -
  have t: "1 / 2 \<le> t" "t \<noteq> 0" "0 < t"
  proof -
    have "(1::real) / 2 ^ 54 \<le> 1 / 2" by simp
    then show "1 / 2 \<le> t" using assms(1) by linarith
    then show "t \<noteq> 0" "0 < t" by simp_all
  qed
  have "\<lfloor>log 2 \<bar>t\<bar>\<rfloor> = - 1"
    using t assms(2) by (subst floor_log_eq_powr_iff) (simp_all add: powr_neg_one)
  then have "ulp_exponent t = - 53" by (simp add: ulp_exponent_def)
  then have "ulp t = 2 powr (- 53)" by (simp add: ulp_def)
  then have u: "ulp t = 1 / 2 ^ 53" by (simp add: powr_neg_numeral)
  have q: "t / ulp t = t * 2 ^ 53" by (simp add: u)
  have "t * 2 ^ 53 \<le> of_int (2 ^ 53)" using assms(2) by simp
  then have a: "rne (t / ulp t) \<le> 2 ^ 53" unfolding q by (rule rne_le)
  have "(1 - 1 / 2 ^ 54) * 2 ^ 53 < t * 2 ^ 53"
    by (rule mult_strict_right_mono[OF assms(1)]) simp
  then have "of_int (2 ^ 53) - 1 / 2 < t * 2 ^ 53" by (simp add: algebra_simps)
  then have b: "2 ^ 53 \<le> rne (t / ulp t)" unfolding q by (rule rne_gt)
  from a b have "rne (t / ulp t) = 2 ^ 53" by simp
  then show ?thesis using t(2) by (simp add: fl_def u)
qed

lemma sin_lower:
  fixes a :: real
  assumes "0 < a" and "a \<le> 1 / 2"
  shows "a / 2 \<le> sin a"
proof -
  from MVT2[of 0 a sin cos, OF assms(1) DERIV_sin]
  obtain z where z: "0 < z" "z < a" "sin a = a * cos z" by auto
  have "\<bar>sin z\<bar> \<le> \<bar>z\<bar>" by (rule abs_sin_x_le_abs_x)
  then have s: "\<bar>sin z\<bar> \<le> 1 / 2" using z assms(2) by simp
  have "(sin z)\<^sup>2 \<le> (1 / 2)\<^sup>2" using s by (simp only: abs_le_square_iff[symmetric])
  then have c2: "3 / 4 \<le> (cos z)\<^sup>2"
    using sin_cos_squared_add[of z] by (simp add: power2_eq_square)
  have "z \<le> pi / 2" using z assms(2) pi_ge_two by simp
  then have c0: "0 \<le> cos z" using z(1) by (intro cos_ge_zero) simp_all
  have "1 / 2 \<le> cos z"
  proof (rule ccontr)
    assume "\<not> 1 / 2 \<le> cos z"
    then have "cos z < 1 / 2" by simp
    then have "(cos z)\<^sup>2 < (1 / 2)\<^sup>2" using c0 by (intro power_strict_mono) simp_all
    then show False using c2 by (simp add: power2_eq_square)
  qed
  then have "a * (1 / 2) \<le> a * cos z" using assms(1) by (intro mult_left_mono) simp_all
  then show ?thesis using z(3) by simp
qed

lemma normal_range: "2 powr (- 1022) \<le> (1::real) / 2 ^ 75"
proof -
  have "(2::real) powr (- 1022) \<le> 2 powr (- 75)" by (simp only: powr_le_cancel_iff)
  then show ?thesis by (simp add: powr_neg_numeral)
qed


subsection \<open>\<^verbatim>\<open>seededRandom\<close>\<close>

text \<open>
  Claim C10, as amended. \<^verbatim>\<open>seededRandom\<close> reads nothing but its argument. For every
  seed its value, the double nearest to \<open>x - floor x\<close> where \<open>x\<close> is the double product of
  \<^verbatim>\<open>Math.sin(seed)\<close> and 10000, lies in the closed interval from 0 to 1, and
  \<^verbatim>\<open>seededRandom(0)\<close> is 0. The value 1 is not excluded, as the theorem after this one
  shows.
\<close>

theorem seededRandom_closed_unit:
  "0 \<le> seededRandom seed \<and> seededRandom seed \<le> 1 \<and> seededRandom 0 = 0"
proof -
  let ?x = "fl (Math_sin seed * 10000)"
  have "0 \<le> ?x - of_int \<lfloor>?x\<rfloor>" "?x - of_int \<lfloor>?x\<rfloor> < 1" by linarith+
  then have "0 \<le> fl (?x - of_int \<lfloor>?x\<rfloor>) \<and> fl (?x - of_int \<lfloor>?x\<rfloor>) \<le> 1" by (rule fl_unit)
  moreover have "seededRandom 0 = 0" by (simp add: seededRandom_def Math_sin_def fl_def)
  ultimately show ?thesis by (simp add: seededRandom_def Let_def)
qed


text \<open>
  Claim C10 as stated fails at the seed \<open>-2\<^sup>-\<^sup>7\<^sup>0\<close>: the product \<open>x\<close> is a negative number
  above \<open>-2\<^sup>-\<^sup>5\<^sup>4\<close>, its floor is \<open>-1\<close>, and \<open>x + 1\<close> is nearer to 1 than to the
  greatest double below 1, so the subtraction returns 1, which is not in the half-open
  interval.
\<close>

theorem seededRandom_counterexample:
  "seededRandom (- (1 / 2 ^ 70)) = 1"
proof -
  define a :: real where "a = 1 / 2 ^ 70"
  define y1 where "y1 = sin (- a)"
  define m where "m = fl y1"
  define y2 where "y2 = m * 10000"
  define p where "p = fl y2"
  have a: "0 < a" "a \<le> 1 / 2" "1 / 2 ^ 75 \<le> a / 2" "40000 * a < 1 / 2 ^ 54"
    by (simp_all add: a_def)
  have s1: "a / 2 \<le> sin a" using a(1,2) by (rule sin_lower)
  have s2: "sin a \<le> a" using a(1) by (intro sin_x_le_x) simp
  have y1: "- a \<le> y1" "y1 \<le> - (a / 2)" using s1 s2 by (simp_all add: y1_def)
  have n1: "2 powr (- 1022) \<le> \<bar>y1\<bar>" using normal_range a(3) y1(2) by linarith
  have neg1: "y1 < 0" using y1(2) a(1) by linarith
  from fl_negative[OF n1 neg1] have m: "2 * y1 \<le> m" "m \<le> y1 / 2" by (simp_all add: m_def)
  have y2: "- (20000 * a) \<le> y2" "y2 \<le> - (2500 * a)" using m y1 unfolding y2_def by linarith+
  have n2: "2 powr (- 1022) \<le> \<bar>y2\<bar>" using normal_range a(1,3) y2(2) by linarith
  have neg2: "y2 < 0" using y2(2) a(1) by linarith
  from fl_negative[OF n2 neg2] have p: "2 * y2 \<le> p" "p \<le> y2 / 2" by (simp_all add: p_def)
  have p1: "- (1 / 2 ^ 54) < p" using p(1) y2(1) a(4) by linarith
  have p2: "p < 0" using p(2) neg2 by linarith
  have "(1::real) / 2 ^ 54 \<le> 1" by simp
  then have "of_int (- 1) \<le> p" "p < of_int (- 1) + 1" using p1 p2 by simp_all
  then have fp: "\<lfloor>p\<rfloor> = - 1" by (rule floor_unique)
  have "1 - 1 / 2 ^ 54 < p + 1" "p + 1 < 1" using p1 p2 by linarith+
  then have "fl (p + 1) = 1" by (rule fl_just_below_one)
  moreover have "seededRandom (- a) = fl (p - of_int \<lfloor>p\<rfloor>)"
    by (simp only: seededRandom_def Math_sin_def Let_def p_def y2_def m_def y1_def)
  ultimately have "seededRandom (- a) = 1" by (simp add: fp)
  then show ?thesis by (simp only: a_def)
qed

subsection \<open>\<^verbatim>\<open>noise3D\<close> and \<^verbatim>\<open>fbm\<close>\<close>

lemma abs_sin_cos_le: "\<bar>sin a * cos b\<bar> \<le> (1::real)"
proof -
  have "\<bar>sin a\<bar> * \<bar>cos b\<bar> \<le> 1 * 1"
    by (intro mult_mono) simp_all
  then show ?thesis by (simp add: abs_mult)
qed

lemma noise3D_bound: "\<bar>noise3D x y z\<bar> \<le> 7 / 4"
proof -
  let ?a = "sin (x * 0.5 + y * 0.3) * cos (z * 0.4 + x * 0.2)"
  let ?b = "sin (y * 0.7 - z * 0.5) * cos (x * 0.6)"
  let ?c = "sin (x * 1.3 + z * 1.1) * cos (y * 0.9)"
  have "\<bar>?a\<bar> \<le> 1" "\<bar>?b\<bar> \<le> 1" "\<bar>?c\<bar> \<le> 1" by (rule abs_sin_cos_le)+
  then have "\<bar>?a + ?b / 2 + ?c / 4\<bar> \<le> 7 / 4" by linarith
  moreover have "noise3D x y z = ?a + ?b / 2 + ?c / 4" by (simp add: noise3D_def)
  ultimately show ?thesis by (simp only:)
qed

lemma fbm_loop_bound:
  "0 < amplitude \<Longrightarrow> 0 \<le> maxValue \<Longrightarrow> \<bar>val\<bar> \<le> 7 / 4 * maxValue \<Longrightarrow>
   fbm_loop x y octaves i val amplitude frequency maxValue = (v, m) \<Longrightarrow>
   \<bar>v\<bar> \<le> 7 / 4 * m \<and> (i < octaves \<longrightarrow> 0 < m)"
proof (induction x y octaves i val amplitude frequency maxValue rule: fbm_loop.induct)
  case (1 x y octaves i val amplitude frequency maxValue)
  show ?case
  proof (cases "i < octaves")
    case True
    let ?n = "noise3D (x * frequency) (y * frequency) (real i * 100)"
    have n: "\<bar>amplitude * ?n\<bar> \<le> amplitude * (7 / 4)"
      using noise3D_bound[of "x * frequency" "y * frequency" "real i * 100"] "1.prems"(1)
      by (simp add: abs_mult)
    have "\<bar>val + amplitude * ?n\<bar> \<le> 7 / 4 * maxValue + 7 / 4 * amplitude"
      using n "1.prems"(3) by linarith
    then have b: "\<bar>val + amplitude * ?n\<bar> \<le> 7 / 4 * (maxValue + amplitude)"
      by (simp add: distrib_left)
    have e: "fbm_loop x y octaves (i + 1) (val + amplitude * ?n) (amplitude * 0.5)
               (frequency * 2.1) (maxValue + amplitude) = (v, m)"
      using "1.prems"(4) True by (subst (asm) fbm_loop.simps) simp
    have a: "0 < amplitude * 0.5" "0 \<le> maxValue + amplitude" using "1.prems"(1,2) by simp_all
    from "1.IH"[OF True a b e] have r: "\<bar>v\<bar> \<le> 7 / 4 * m" and
      s: "i + 1 < octaves \<longrightarrow> 0 < m" by simp_all
    have "0 < m"
    proof (cases "i + 1 < octaves")
      case True
      with s show ?thesis by simp
    next
      case False
      then have "m = maxValue + amplitude" using e by (subst (asm) fbm_loop.simps) simp
      then show ?thesis using "1.prems"(1,2) by simp
    qed
    with r show ?thesis by simp
  next
    case False
    then have "v = val" "m = maxValue" using "1.prems"(4) by (simp_all add: fbm_loop.simps)
    then show ?thesis using "1.prems"(3) False by simp
  qed
qed

lemma fbm_bound:
  assumes "0 < octaves"
  shows "\<bar>fbm x y octaves\<bar> \<le> 7 / 4"
proof -
  obtain v m where vm: "fbm_loop x y octaves 0 0 1 1 0 = (v, m)" by (cases "fbm_loop x y octaves 0 0 1 1 0")
  from fbm_loop_bound[OF _ _ _ vm] assms have b: "\<bar>v\<bar> \<le> 7 / 4 * m" and m: "0 < m" by simp_all
  have "\<bar>v / m\<bar> = \<bar>v\<bar> / m" using m by simp
  also have "\<dots> \<le> 7 / 4" using b m by (simp add: pos_divide_le_eq)
  finally show ?thesis by (simp add: fbm_def vm)
qed

section \<open>TerrainField\<close>

lemma displacement_range: "19 / 40 \<le> displacement seed x y z \<and> displacement seed x y z \<le> 61 / 40"
proof -
  have "19 / 40 \<le> 1 + f * 0.3 \<and> 1 + f * 0.3 \<le> 61 / 40" if "\<bar>f\<bar> \<le> 7 / 4" for f :: real
    using that by argo
  from this[OF fbm_bound[of 3]] show ?thesis unfolding displacement_def by simp
qed

lemma rockY_shrinks:
  assumes "\<bar>flattenBottom\<bar> \<le> 1 / 2" and "y < 0"
  shows "\<bar>rockY seed flattenBottom x y z\<bar> < \<bar>y\<bar>"
proof -
  let ?d = "displacement seed x y z"
  have d: "0 < ?d" "?d \<le> 61 / 40" using displacement_range[of seed x y z] by simp_all
  have "\<bar>flattenBottom\<bar> * ?d \<le> (1 / 2) * (61 / 40)"
    using assms(1) d by (intro mult_mono) simp_all
  then have f: "\<bar>flattenBottom\<bar> * ?d * 0.85 < 1" by simp
  have "\<bar>rockY seed flattenBottom x y z\<bar> = \<bar>y\<bar> * (\<bar>flattenBottom\<bar> * ?d * 0.85)"
    using assms(2) d(1) by (simp add: rockY_def yScale_def abs_mult)
  also have "\<dots> < \<bar>y\<bar> * 1"
    using f assms(2) by (intro mult_strict_left_mono) simp_all
  finally show ?thesis by simp
qed

lemma rock_calls_flatten:
  "(baseSize, detail, seed, flattenBottom, stretchX, stretchZ) \<in> set rock_calls \<Longrightarrow>
   \<bar>flattenBottom\<bar> \<le> 1 / 2"
  by (auto simp: rock_calls_def fortMainRock_def fortUpperRock_def configs_def)

text \<open>
  Claim C8. For every call of \<^verbatim>\<open>createRockGeometry\<close> that the program makes, and every
  vertex of the base mesh whose height \<open>y\<close> (index \<open>j\<close> with \<open>j mod 3 = 1\<close>) is negative,
  the height stored for that vertex is strictly smaller in absolute value than the
  height before the displacement.
\<close>

theorem rock_grounding:
  assumes "(baseSize, detail, seed, flattenBottom, stretchX, stretchZ) \<in> set rock_calls"
    and "3 dvd length (ico baseSize detail)"
    and "j < length (ico baseSize detail)" and "j mod 3 = 1"
    and "ico baseSize detail ! j < 0"
  shows "\<bar>createRockGeometry ico baseSize detail seed flattenBottom stretchX stretchZ ! j\<bar> <
         \<bar>ico baseSize detail ! j\<bar>"
proof -
  let ?ps = "ico baseSize detail"
  obtain n where n: "length ?ps = 3 * n" using assms(2) by (auto simp: dvd_def)
  obtain k where k: "j = 3 * k + 1" using assms(4) by (metis mult_div_mod_eq)
  have b: "3 dvd 3 * k" "3 * k + 2 < length ?ps" using assms(3) n k by presburger+
  from rock_loop_nth[OF _ b(1) _ b(2), of 0 seed flattenBottom stretchX stretchZ]
  have "rock_loop seed flattenBottom stretchX stretchZ 0 ?ps ! j =
          rockY seed flattenBottom (?ps ! (3 * k)) (?ps ! j) (?ps ! (3 * k + 2))"
    using k by simp
  then show ?thesis
    using rockY_shrinks[OF rock_calls_flatten[OF assms(1)] assms(5)]
    by (simp add: createRockGeometry_def)
qed

text \<open>
  Claim C8 at the call for \<^verbatim>\<open>fortMainRock\<close>, on a base mesh of one vertex at height
  \<open>-1\<close>.
\<close>

theorem rock_grounding_witness:
  "(35, 4, 400, 3 / 10, 14 / 10, 12 / 10) \<in> set rock_calls \<and>
   3 dvd length [0, - 1, 0 :: real] \<and> (1::nat) < length [0, - 1, 0 :: real] \<and>
   (1::nat) mod 3 = 1 \<and> [0, - 1, 0 :: real] ! 1 < 0 \<and>
   \<bar>createRockGeometry (\<lambda>baseSize detail. [0, - 1, 0]) 35 4 400 (3 / 10) (14 / 10) (12 / 10) ! 1\<bar> <
   \<bar>[0, - 1, 0 :: real] ! 1\<bar>"
proof -
  have h1: "(35, 4, 400, 3 / 10, 14 / 10, 12 / 10) \<in> set rock_calls"
    by (simp add: rock_calls_def fortMainRock_def)
  have h2: "3 dvd length [0, - 1, 0 :: real]" by (simp add: numeral_3_eq_3)
  have h3: "1 < length [0, - 1, 0 :: real]" by simp
  have h4: "(1::nat) mod 3 = 1" by simp
  have h5: "[0, - 1, 0 :: real] ! 1 < 0" by simp
  from rock_grounding[of 35 4 400 "3 / 10" "14 / 10" "12 / 10" "\<lambda>baseSize detail. [0, - 1, 0]" 1,
      OF h1 h2 h3 h4 h5] h1 h2 h3 h4 h5
  show ?thesis by blast
qed

lemma mod3_pred:
  fixes j :: nat
  assumes "j mod 3 = 2"
  shows "(j - 2) mod 3 \<noteq> 2" "(j - 1) mod 3 \<noteq> 2" "j - 2 < j" "j - 1 < j"
proof -
  define k where "k = j div 3"
  have j: "j = 3 * k + 2" using assms div_mult_mod_eq[of j 3] by (simp add: k_def)
  have a: "j - 2 = 3 * k" "j - 1 = 3 * k + 1" using j by simp_all
  show "(j - 2) mod 3 \<noteq> 2" by (simp only: a) simp
  show "(j - 1) mod 3 \<noteq> 2" by (simp only: a) simp
  show "j - 2 < j" "j - 1 < j" using j by simp_all
qed

lemma cliff_loop_same:
  assumes "length p2 = length p1"
    and "\<forall>j<length p1. j mod 3 \<noteq> 2 \<longrightarrow> p2 ! j = p1 ! j"
  shows "cliff_loop h s d 0 p1 = cliff_loop h s d 0 p2"
proof (rule nth_equalityI)
  show "length (cliff_loop h s d 0 p1) = length (cliff_loop h s d 0 p2)"
    using assms(1) by (simp add: cliff_loop_length)
next
  fix j assume "j < length (cliff_loop h s d 0 p1)"
  then have j: "j < length p1" "j < length p2" using assms(1) by (simp_all add: cliff_loop_length)
  show "cliff_loop h s d 0 p1 ! j = cliff_loop h s d 0 p2 ! j"
  proof (cases "j mod 3 = 2")
    case True
    note m = mod3_pred[OF True]
    have "j - 2 < length p1" "j - 1 < length p1" using m(3,4) j(1) by linarith+
    then have "p2 ! (j - 2) = p1 ! (j - 2)" "p2 ! (j - 1) = p1 ! (j - 1)"
      using assms(2) m(1,2) by blast+
    moreover have "cliff_loop h s d 0 p1 ! j = cliffZ h s d (p1 ! (j - 2)) (p1 ! (j - 1))"
      using j(1) True by (intro cliff_loop_z) simp_all
    moreover have "cliff_loop h s d 0 p2 ! j = cliffZ h s d (p2 ! (j - 2)) (p2 ! (j - 1))"
      using j(2) True by (intro cliff_loop_z) simp_all
    ultimately show ?thesis by simp
  next
    case False
    then have "cliff_loop h s d 0 p1 ! j = p1 ! j" "cliff_loop h s d 0 p2 ! j = p2 ! j"
      by (simp_all add: cliff_loop_keep)
    then show ?thesis using assms(2) j(1) False by simp
  qed
qed

lemma rock_loop_vertex_same:
  assumes "3 dvd b" and "b + 2 < length m1" and "b + 2 < length m2"
    and "m2 ! b = m1 ! b" "m2 ! (b + 1) = m1 ! (b + 1)" "m2 ! (b + 2) = m1 ! (b + 2)"
  shows "rock_loop s f sx sz 0 m1 ! b = rock_loop s f sx sz 0 m2 ! b \<and>
         rock_loop s f sx sz 0 m1 ! (b + 1) = rock_loop s f sx sz 0 m2 ! (b + 1) \<and>
         rock_loop s f sx sz 0 m1 ! (b + 2) = rock_loop s f sx sz 0 m2 ! (b + 2)"
proof -
  have z: "3 dvd (0::nat)" "0 \<le> b" by simp_all
  note r1 = rock_loop_nth[OF z(1) assms(1) z(2) assms(2), of s f sx sz]
  note r2 = rock_loop_nth[OF z(1) assms(1) z(2) assms(3), of s f sx sz]
  show ?thesis
    by (simp only: r1 r2 assms(4-6) simp_thms)
qed

lemma rock_loop_same:
  assumes "3 dvd length m1" and "length m2 = length m1"
    and "\<forall>j<length m1. m2 ! j = m1 ! j"
  shows "rock_loop s f sx sz 0 m1 = rock_loop s f sx sz 0 m2"
proof (rule nth_equalityI)
  show "length (rock_loop s f sx sz 0 m1) = length (rock_loop s f sx sz 0 m2)"
    by (simp only: rock_loop_length assms(2))
next
  fix j assume "j < length (rock_loop s f sx sz 0 m1)"
  then have j: "j < length m1" by (simp only: rock_loop_length)
  define b where "b = 3 * (j div 3)"
  note v = vertex_index[OF assms(1) j, folded b_def]
  have l2: "b + 2 < length m2" using v(2) by (simp only: assms(2))
  have lt: "b < length m1" "b + 1 < length m1" using v(2) by linarith+
  have e: "m2 ! b = m1 ! b" "m2 ! (b + 1) = m1 ! (b + 1)" "m2 ! (b + 2) = m1 ! (b + 2)"
    using assms(3) lt v(2) by blast+
  note r = rock_loop_vertex_same[OF v(1) v(2) l2 e, of s f sx sz]
  from v(3) r show "rock_loop s f sx sz 0 m1 ! j = rock_loop s f sx sz 0 m2 ! j"
    by blast
qed

text \<open>
  Claim C9. Each of two calls with the same arguments works on a mesh of its own, which
  three.js has built from those arguments. \<^verbatim>\<open>createCliffGeometry\<close>: when the two planes
  have the same \<open>x\<close> and \<open>y\<close> at every vertex, the two position buffers are the same in
  every entry, whatever the planes held as \<open>z\<close>: each \<open>z\<close> is written from the arguments
  and the \<open>x\<close> and \<open>y\<close> of its vertex, and from nothing else. \<^verbatim>\<open>createRockGeometry\<close>:
  at every vertex that the two base meshes have in common the two buffers agree, whatever
  the other vertices are, so two base meshes with the same entries give the same buffer.
  Neither function reads a clock, a random source or a variable that outlives a call.
\<close>

theorem terrain_deterministic:
  "(3 dvd length (plane1 width height segX segY) \<and>
    length (plane2 width height segX segY) = length (plane1 width height segX segY) \<and>
    (\<forall>j<length (plane1 width height segX segY). j mod 3 \<noteq> 2 \<longrightarrow>
       plane2 width height segX segY ! j = plane1 width height segX segY ! j) \<longrightarrow>
    createCliffGeometry plane1 width height segX segY seed amount =
    createCliffGeometry plane2 width height segX segY seed amount) \<and>
   (3 dvd b \<and> b + 2 < length (ico1 baseSize detail) \<and> b + 2 < length (ico2 baseSize detail) \<and>
    ico2 baseSize detail ! b = ico1 baseSize detail ! b \<and>
    ico2 baseSize detail ! (b + 1) = ico1 baseSize detail ! (b + 1) \<and>
    ico2 baseSize detail ! (b + 2) = ico1 baseSize detail ! (b + 2) \<longrightarrow>
    createRockGeometry ico1 baseSize detail rockSeed flatten stretchX stretchZ ! b =
    createRockGeometry ico2 baseSize detail rockSeed flatten stretchX stretchZ ! b \<and>
    createRockGeometry ico1 baseSize detail rockSeed flatten stretchX stretchZ ! (b + 1) =
    createRockGeometry ico2 baseSize detail rockSeed flatten stretchX stretchZ ! (b + 1) \<and>
    createRockGeometry ico1 baseSize detail rockSeed flatten stretchX stretchZ ! (b + 2) =
    createRockGeometry ico2 baseSize detail rockSeed flatten stretchX stretchZ ! (b + 2)) \<and>
   (3 dvd length (ico1 baseSize detail) \<and>
    length (ico2 baseSize detail) = length (ico1 baseSize detail) \<and>
    (\<forall>j<length (ico1 baseSize detail). ico2 baseSize detail ! j = ico1 baseSize detail ! j) \<longrightarrow>
    createRockGeometry ico1 baseSize detail rockSeed flatten stretchX stretchZ =
    createRockGeometry ico2 baseSize detail rockSeed flatten stretchX stretchZ)"
proof (intro conjI impI)
  assume "3 dvd length (plane1 width height segX segY) \<and>
    length (plane2 width height segX segY) = length (plane1 width height segX segY) \<and>
    (\<forall>j<length (plane1 width height segX segY). j mod 3 \<noteq> 2 \<longrightarrow>
       plane2 width height segX segY ! j = plane1 width height segX segY ! j)"
  then show "createCliffGeometry plane1 width height segX segY seed amount =
    createCliffGeometry plane2 width height segX segY seed amount"
    unfolding createCliffGeometry_def by (intro cliff_loop_same) blast+
next
  assume h: "3 dvd b \<and> b + 2 < length (ico1 baseSize detail) \<and> b + 2 < length (ico2 baseSize detail) \<and>
    ico2 baseSize detail ! b = ico1 baseSize detail ! b \<and>
    ico2 baseSize detail ! (b + 1) = ico1 baseSize detail ! (b + 1) \<and>
    ico2 baseSize detail ! (b + 2) = ico1 baseSize detail ! (b + 2)"
  have r: "rock_loop rockSeed flatten stretchX stretchZ 0 (ico1 baseSize detail) ! b =
      rock_loop rockSeed flatten stretchX stretchZ 0 (ico2 baseSize detail) ! b \<and>
    rock_loop rockSeed flatten stretchX stretchZ 0 (ico1 baseSize detail) ! (b + 1) =
      rock_loop rockSeed flatten stretchX stretchZ 0 (ico2 baseSize detail) ! (b + 1) \<and>
    rock_loop rockSeed flatten stretchX stretchZ 0 (ico1 baseSize detail) ! (b + 2) =
      rock_loop rockSeed flatten stretchX stretchZ 0 (ico2 baseSize detail) ! (b + 2)"
    using h by (intro rock_loop_vertex_same) blast+
  from r show "createRockGeometry ico1 baseSize detail rockSeed flatten stretchX stretchZ ! b =
    createRockGeometry ico2 baseSize detail rockSeed flatten stretchX stretchZ ! b"
    unfolding createRockGeometry_def by blast
  from r show "createRockGeometry ico1 baseSize detail rockSeed flatten stretchX stretchZ ! (b + 1) =
    createRockGeometry ico2 baseSize detail rockSeed flatten stretchX stretchZ ! (b + 1)"
    unfolding createRockGeometry_def by blast
  from r show "createRockGeometry ico1 baseSize detail rockSeed flatten stretchX stretchZ ! (b + 2) =
    createRockGeometry ico2 baseSize detail rockSeed flatten stretchX stretchZ ! (b + 2)"
    unfolding createRockGeometry_def by blast
next
  assume "3 dvd length (ico1 baseSize detail) \<and>
    length (ico2 baseSize detail) = length (ico1 baseSize detail) \<and>
    (\<forall>j<length (ico1 baseSize detail). ico2 baseSize detail ! j = ico1 baseSize detail ! j)"
  then show "createRockGeometry ico1 baseSize detail rockSeed flatten stretchX stretchZ =
    createRockGeometry ico2 baseSize detail rockSeed flatten stretchX stretchZ"
    unfolding createRockGeometry_def by (intro rock_loop_same) blast+
qed

text \<open>
  Claim C9 at the call for the left cliff (\<^verbatim>\<open>cliffSteepness * 0.8\<close> with the default
  steepness 18), on planes of one vertex that differ in \<open>z\<close>, and at the call for
  \<^verbatim>\<open>fortUpperRock\<close>, on base meshes of two vertices that differ in the second vertex,
  and on two base meshes with the same entries.
\<close>

theorem terrain_deterministic_witness:
  "createCliffGeometry (\<lambda>width height segX segY. [- 70, 30, 0]) 140 60 35 20 100 (72 / 5) =
   createCliffGeometry (\<lambda>width height segX segY. [- 70, 30, 5]) 140 60 35 20 100 (72 / 5) \<and>
   createRockGeometry (\<lambda>baseSize detail. [0, - 1, 0, 1, 1, 1]) 25 3 410 (1 / 2) (3 / 2) 1 ! 0 =
   createRockGeometry (\<lambda>baseSize detail. [0, - 1, 0, 2, 2, 2]) 25 3 410 (1 / 2) (3 / 2) 1 ! 0 \<and>
   createRockGeometry (\<lambda>baseSize detail. [0, - 1, 0, 1, 1, 1]) 25 3 410 (1 / 2) (3 / 2) 1 ! (0 + 1) =
   createRockGeometry (\<lambda>baseSize detail. [0, - 1, 0, 2, 2, 2]) 25 3 410 (1 / 2) (3 / 2) 1 ! (0 + 1) \<and>
   createRockGeometry (\<lambda>baseSize detail. [0, - 1, 0, 1, 1, 1]) 25 3 410 (1 / 2) (3 / 2) 1 ! (0 + 2) =
   createRockGeometry (\<lambda>baseSize detail. [0, - 1, 0, 2, 2, 2]) 25 3 410 (1 / 2) (3 / 2) 1 ! (0 + 2) \<and>
   createRockGeometry (\<lambda>baseSize detail. [0, - 1, 0, 1, 1, 1]) 25 3 410 (1 / 2) (3 / 2) 1 =
   createRockGeometry (\<lambda>baseSize detail. if detail = 3 then [0, - 1, 0, 1, 1, 1] else [])
     25 3 410 (1 / 2) (3 / 2) 1"
proof -
  let ?p1 = "\<lambda>(width::real) (height::real) (segX::nat) (segY::nat). [- 70, 30, 0 :: real]"
  let ?p2 = "\<lambda>(width::real) (height::real) (segX::nat) (segY::nat). [- 70, 30, 5 :: real]"
  let ?i1 = "\<lambda>(baseSize::real) (detail::nat). [0, - 1, 0, 1, 1, 1 :: real]"
  let ?i2 = "\<lambda>(baseSize::real) (detail::nat). [0, - 1, 0, 2, 2, 2 :: real]"
  let ?i3 = "\<lambda>(baseSize::real) (detail::nat).
               if detail = 3 then [0, - 1, 0, 1, 1, 1 :: real] else []"
  have c1: "3 dvd length (?p1 140 60 35 20)" by (simp add: numeral_3_eq_3)
  have c2: "length (?p2 140 60 35 20) = length (?p1 140 60 35 20)" by simp
  have c3: "\<forall>j<length (?p1 140 60 35 20). j mod 3 \<noteq> 2 \<longrightarrow>
              ?p2 140 60 35 20 ! j = ?p1 140 60 35 20 ! j"
  proof (intro allI impI)
    fix j :: nat
    assume "j < length (?p1 140 60 35 20)" and m: "j mod 3 \<noteq> 2"
    then have "j < 3" by simp
    with m have "j = 0 \<or> j = 1" by presburger
    then show "?p2 140 60 35 20 ! j = ?p1 140 60 35 20 ! j" by auto
  qed
  have r1: "3 dvd (0::nat)" "(0::nat) + 2 < length (?i1 25 3)" "(0::nat) + 2 < length (?i2 25 3)"
    "?i2 25 3 ! 0 = ?i1 25 3 ! 0" "?i2 25 3 ! (0 + 1) = ?i1 25 3 ! (0 + 1)"
    "?i2 25 3 ! (0 + 2) = ?i1 25 3 ! (0 + 2)"
    by simp_all
  have s1: "3 dvd length (?i1 25 3)"
  proof -
    have "length (?i1 25 3) = 3 * 2" by simp
    then show ?thesis by (simp only: dvd_triv_left)
  qed
  have s2: "length (?i3 25 3) = length (?i1 25 3)" by simp
  have s3: "\<forall>j<length (?i1 25 3). ?i3 25 3 ! j = ?i1 25 3 ! j" by simp
  note t = terrain_deterministic[where ?plane1.0 = ?p1 and ?plane2.0 = ?p2
      and width = 140 and height = 60 and segX = 35 and segY = 20 and seed = 100
      and amount = "72 / 5" and ?ico1.0 = ?i1 and ?ico2.0 = ?i2 and baseSize = 25
      and detail = 3 and b = 0 and rockSeed = 410 and flatten = "1 / 2"
      and stretchX = "3 / 2" and stretchZ = 1]
  note u = terrain_deterministic[where ?plane1.0 = ?p1 and ?plane2.0 = ?p2
      and width = 140 and height = 60 and segX = 35 and segY = 20 and seed = 100
      and amount = "72 / 5" and ?ico1.0 = ?i1 and ?ico2.0 = ?i3 and baseSize = 25
      and detail = 3 and b = 0 and rockSeed = 410 and flatten = "1 / 2"
      and stretchX = "3 / 2" and stretchZ = 1]
  from t c1 c2 c3 have a: "createCliffGeometry ?p1 140 60 35 20 100 (72 / 5) =
     createCliffGeometry ?p2 140 60 35 20 100 (72 / 5)" by blast
  from t r1 have b: "createRockGeometry ?i1 25 3 410 (1 / 2) (3 / 2) 1 ! 0 =
     createRockGeometry ?i2 25 3 410 (1 / 2) (3 / 2) 1 ! 0 \<and>
     createRockGeometry ?i1 25 3 410 (1 / 2) (3 / 2) 1 ! (0 + 1) =
     createRockGeometry ?i2 25 3 410 (1 / 2) (3 / 2) 1 ! (0 + 1) \<and>
     createRockGeometry ?i1 25 3 410 (1 / 2) (3 / 2) 1 ! (0 + 2) =
     createRockGeometry ?i2 25 3 410 (1 / 2) (3 / 2) 1 ! (0 + 2)" by blast
  from u s1 s2 s3 have c: "createRockGeometry ?i1 25 3 410 (1 / 2) (3 / 2) 1 =
     createRockGeometry ?i3 25 3 410 (1 / 2) (3 / 2) 1" by blast
  from a b c show ?thesis by blast
qed

end
